theory Spec2Isabelle
  imports Main "HOL-Library.Word"
begin

section \<open>GLC: the OpenGL Common function library (glc.h)\<close>

text \<open>
  The three entry points of glc.h are thin wrappers over the C library and the OpenGL
  driver. The embedding keeps the control flow of each function as it is written and
  makes the outside world explicit:
  \<^item> an \<open>env\<close> record holds what the outside world answers in a run (which files
    exist and what they hold, whether an allocation succeeds, which handles and status
    flags the driver returns) and the three type tags of the OpenGL headers;
  \<^item> a \<open>world\<close> record holds the resources that are live (open streams, heap blocks,
    shader and program objects, the current program) and the \<open>trace\<close> of every
    external call made so far, in program order, with its arguments and result;
  \<^item> undefined behaviour of C (signed overflow of the length counter, a write
    through the unchecked result of calloc, a \<open>va_arg\<close> that does not match the
    argument passed) is the result \<open>None\<close>.
\<close>

subsection \<open>C and OpenGL types\<close>

type_synonym byte = "8 word"
type_synonym c_int = "32 word"      \<comment> \<open>\<open>int\<close>: two's complement, read with \<open>sint\<close>, compared with \<open><s\<close>\<close>
type_synonym GLuint = "32 word"
type_synonym GLint = "32 word"
type_synonym GLsizei = "32 word"
type_synonym GLboolean = "8 word"
type_synonym GLfloat = "32 word"    \<comment> \<open>the bit pattern of a single-precision value\<close>
type_synonym double = "64 word"     \<comment> \<open>the bit pattern of a double-precision value\<close>
type_synonym FILE = nat             \<comment> \<open>a \<open>FILE*\<close> that is not NULL\<close>
type_synonym ptr = nat              \<comment> \<open>a heap pointer that is not NULL\<close>

definition INT_MAX :: nat where
  "INT_MAX = 2147483647"

datatype stage = GL_VERTEX_SHADER | GL_FRAGMENT_SHADER

text \<open>The driver's upload entry points that glc.h calls.\<close>

datatype uniform_fn =
    glUniform1fv | glUniform1iv | glUniform1uiv
  | glUniform2fv | glUniform2iv | glUniform2uiv
  | glUniform3fv | glUniform3iv | glUniform3uiv
  | glUniform4fv | glUniform4iv | glUniform4uiv

datatype matrix_fn = glUniformMatrix2fv | glUniformMatrix3fv | glUniformMatrix4fv

text \<open>An argument of \<open>fprintf\<close>: \<open>%s\<close> takes a string, \<open>%d\<close> an int.\<close>

datatype printf_arg = Str string | Dec c_int

text \<open>A variadic argument after default promotion.\<close>

datatype c_arg = ArgDouble double | ArgInt c_int | ArgUInt "32 word"

subsection \<open>External calls\<close>

text \<open>
  One constructor for each C library or driver function glc.h calls, with the arguments
  that matter and the value returned. \<open>Fprintf\<close> always writes to stderr.
  \<open>Assign_program v\<close> is the store \<open>*program = v\<close> into the caller's variable.
\<close>

datatype call =
    Fopen string "FILE option"
  | Fclose FILE
  | Fgetc FILE "byte option"
  | Fseek_set FILE nat
  | Calloc nat nat "ptr option"
  | Malloc nat "ptr option"
  | Fread ptr nat nat FILE "byte list"
  | Free ptr
  | Fprintf string "printf_arg list"
  | Assign_program GLuint
  | GlCreateShader stage GLuint
  | GlShaderSource GLuint "byte list"
  | GlCompileShader GLuint
  | GlGetShaderiv_compile_status GLuint bool
  | GlGetShaderInfoLog GLuint nat string
  | GlCreateProgram GLuint
  | GlAttachShader GLuint GLuint
  | GlLinkProgram GLuint
  | GlGetProgramiv_link_status GLuint bool
  | GlGetProgramInfoLog GLuint nat string
  | GlDeleteShader GLuint
  | GlGetUniformLocation GLuint string GLint
  | GlUseProgram GLuint
  | GlUniform uniform_fn GLint GLsizei "32 word list"
  | GlUniformMatrix matrix_fn GLint GLsizei GLboolean "32 word list"

subsection \<open>The outside world\<close>

record stream =
  contents :: "byte list"
  pos :: nat

record shader =
  shader_stage :: stage
  shader_source :: "byte list"
  compile_status :: bool
  delete_status :: bool

record program =
  attached :: "GLuint list"
  link_status :: bool

text \<open>
  What the outside world answers. The type tags \<open>GL_FLOAT\<close>, \<open>GL_INT\<close> and
  \<open>GL_UNSIGNED_INT\<close> are macros of the OpenGL headers, which glc.h requires to be
  included first; they are parameters here. \<open>narrow\<close> is the conversion
  \<open>(GLfloat)\<close> of a double.
\<close>

record env =
  file_system :: "string \<Rightarrow> byte list option"
  alloc_ok :: "nat \<Rightarrow> bool"
  create_shader :: "stage \<Rightarrow> GLuint"
  compiles :: "stage \<Rightarrow> byte list \<Rightarrow> bool"
  shader_log :: "stage \<Rightarrow> byte list \<Rightarrow> string"
  create_program :: GLuint
  links :: "(stage \<times> byte list) list \<Rightarrow> bool"
  program_log :: "(stage \<times> byte list) list \<Rightarrow> string"
  uniform_location :: "GLuint \<Rightarrow> string \<Rightarrow> GLint"
  GL_FLOAT :: c_int
  GL_INT :: c_int
  GL_UNSIGNED_INT :: c_int
  narrow :: "double \<Rightarrow> GLfloat"

record world =
  streams :: "FILE \<rightharpoonup> stream"
  heap :: "ptr \<rightharpoonup> nat"
  next_id :: nat
  shaders :: "GLuint \<rightharpoonup> shader"
  programs :: "GLuint \<rightharpoonup> program"
  current_program :: GLuint
  trace :: "call list"

definition logcall :: "call \<Rightarrow> world \<Rightarrow> world" where
  "logcall c w = w\<lparr>trace := trace w @ [c]\<rparr>"

subsection \<open>The C library\<close>

definition fopen_rb :: "env \<Rightarrow> string \<Rightarrow> world \<Rightarrow> FILE option \<times> world" where
  "fopen_rb env path w =
     (case file_system env path of
        None \<Rightarrow> (None, logcall (Fopen path None) w)
      | Some bytes \<Rightarrow>
          (let f = next_id w
           in (Some f,
               logcall (Fopen path (Some f))
                 (w\<lparr>streams := (streams w)(f \<mapsto> \<lparr>contents = bytes, pos = 0\<rparr>),
                    next_id := Suc f\<rparr>))))"

definition fclose :: "FILE \<Rightarrow> world \<Rightarrow> world" where
  "fclose f w = logcall (Fclose f) (w\<lparr>streams := (streams w)(f := None)\<rparr>)"

text \<open>\<open>fgetc\<close>: the next byte, or \<open>None\<close> for EOF.\<close>

definition fgetc :: "FILE \<Rightarrow> world \<Rightarrow> byte option \<times> world" where
  "fgetc f w =
     (case streams w f of
        None \<Rightarrow> (None, logcall (Fgetc f None) w)
      | Some s \<Rightarrow>
          if pos s < length (contents s)
          then (Some (contents s ! pos s),
                logcall (Fgetc f (Some (contents s ! pos s)))
                  (w\<lparr>streams := (streams w)(f \<mapsto> s\<lparr>pos := Suc (pos s)\<rparr>)\<rparr>))
          else (None, logcall (Fgetc f None) w))"

text \<open>\<open>fseek(f, offset, SEEK_SET)\<close>\<close>

definition fseek_set :: "FILE \<Rightarrow> nat \<Rightarrow> world \<Rightarrow> world" where
  "fseek_set f offset w =
     logcall (Fseek_set f offset)
       (case streams w f of
          None \<Rightarrow> w
        | Some s \<Rightarrow> w\<lparr>streams := (streams w)(f \<mapsto> s\<lparr>pos := offset\<rparr>)\<rparr>)"

text \<open>
  \<open>calloc(nmemb, sz)\<close>: NULL, or a fresh block of \<open>nmemb * sz\<close> bytes. The heap
  keeps the size of each live block; the zeroed contents are returned to the caller, whose
  local pointer is the only access to them.
\<close>

definition calloc :: "env \<Rightarrow> nat \<Rightarrow> nat \<Rightarrow> world \<Rightarrow> (ptr \<times> byte list) option \<times> world" where
  "calloc env nmemb sz w =
     (if alloc_ok env (nmemb * sz)
      then (let p = next_id w
            in (Some (p, replicate (nmemb * sz) 0),
                logcall (Calloc nmemb sz (Some p))
                  (w\<lparr>heap := (heap w)(p \<mapsto> nmemb * sz), next_id := Suc p\<rparr>)))
      else (None, logcall (Calloc nmemb sz None) w))"

definition malloc :: "env \<Rightarrow> nat \<Rightarrow> world \<Rightarrow> ptr option \<times> world" where
  "malloc env sz w =
     (if alloc_ok env sz
      then (let p = next_id w
            in (Some p,
                logcall (Malloc sz (Some p))
                  (w\<lparr>heap := (heap w)(p \<mapsto> sz), next_id := Suc p\<rparr>)))
      else (None, logcall (Malloc sz None) w))"

definition free :: "ptr \<Rightarrow> world \<Rightarrow> world" where
  "free p w = logcall (Free p) (w\<lparr>heap := (heap w)(p := None)\<rparr>)"

text \<open>
  \<open>fread(p, sz, nmemb, f)\<close> with \<open>sz = 1\<close>: the bytes read, at most \<open>nmemb\<close>
  and at most what is left in the stream; the stream moves past them.
\<close>

definition fread :: "ptr \<Rightarrow> nat \<Rightarrow> nat \<Rightarrow> FILE \<Rightarrow> world \<Rightarrow> byte list \<times> world" where
  "fread p sz nmemb f w =
     (case streams w f of
        None \<Rightarrow> ([], logcall (Fread p sz nmemb f []) w)
      | Some s \<Rightarrow>
          (let bs = take (nmemb * sz) (drop (pos s) (contents s))
           in (bs,
               logcall (Fread p sz nmemb f bs)
                 (w\<lparr>streams := (streams w)(f \<mapsto> s\<lparr>pos := pos s + length bs\<rparr>)\<rparr>))))"

definition fprintf :: "string \<Rightarrow> printf_arg list \<Rightarrow> world \<Rightarrow> world" where
  "fprintf format args w = logcall (Fprintf format args) w"

text \<open>
  The counting loop \<open>do { length++; } while(fgetc(file) != EOF);\<close>. The counter is
  an \<open>int\<close>: incrementing it at \<open>INT_MAX\<close> is undefined.
\<close>

function scan_length :: "FILE \<Rightarrow> nat \<Rightarrow> world \<Rightarrow> (nat \<times> world) option" where
  "scan_length f len w =
     (if INT_MAX \<le> len then None
      else (case fgetc f w of
              (Some c, w') \<Rightarrow> scan_length f (len + 1) w'
            | (None, w') \<Rightarrow> Some (len + 1, w')))"
  by pat_completeness auto

termination scan_length
  by (relation "measure (\<lambda>(f, len, w).
        case streams w f of None \<Rightarrow> 0 | Some s \<Rightarrow> length (contents s) - pos s)")
     (auto simp: fgetc_def logcall_def split: option.splits if_splits)

declare scan_length.simps [simp del]

subsection \<open>The driver: shader and program objects\<close>

text \<open>\<open>glCreateShader\<close>: 0 is the driver's failure value.\<close>

definition glCreateShader :: "env \<Rightarrow> stage \<Rightarrow> world \<Rightarrow> GLuint \<times> world" where
  "glCreateShader env st w =
     (let h = create_shader env st
      in (h,
          logcall (GlCreateShader st h)
            (if h = 0 then w
             else w\<lparr>shaders := (shaders w)(h \<mapsto>
                    \<lparr>shader_stage = st, shader_source = [],
                     compile_status = False, delete_status = False\<rparr>)\<rparr>)))"

text \<open>A C string: the bytes before the first zero byte.\<close>

definition c_string :: "byte list \<Rightarrow> byte list" where
  "c_string buf = takeWhile (\<lambda>b. b \<noteq> 0) buf"

text \<open>
  \<open>glShaderSource(h, 1, &source, NULL)\<close>: with a NULL length array the driver reads
  the one string up to its first zero byte. \<open>buf\<close> is the block \<open>source\<close> points
  to; a block without a zero byte is read past its end (\<open>None\<close>).
\<close>

definition glShaderSource :: "GLuint \<Rightarrow> byte list \<Rightarrow> world \<Rightarrow> world option" where
  "glShaderSource h buf w =
     (if 0 \<notin> set buf then None
      else Some (logcall (GlShaderSource h buf)
             (case shaders w h of
                None \<Rightarrow> w
              | Some sh \<Rightarrow>
                  w\<lparr>shaders := (shaders w)(h \<mapsto>
                       sh\<lparr>shader_source := c_string buf\<rparr>)\<rparr>)))"

definition glCompileShader :: "env \<Rightarrow> GLuint \<Rightarrow> world \<Rightarrow> world" where
  "glCompileShader env h w =
     logcall (GlCompileShader h)
       (case shaders w h of
          None \<Rightarrow> w
        | Some sh \<Rightarrow>
            w\<lparr>shaders := (shaders w)(h \<mapsto>
                 sh\<lparr>compile_status := compiles env (shader_stage sh) (shader_source sh)\<rparr>)\<rparr>)"

text \<open>
  \<open>glGetShaderiv(h, GL_COMPILE_STATUS, &success)\<close>. For a name that is no shader
  object the driver writes nothing and \<open>success\<close> stays uninitialised (\<open>None\<close>).
\<close>

definition glGetShaderiv_compile_status :: "GLuint \<Rightarrow> world \<Rightarrow> (bool \<times> world) option" where
  "glGetShaderiv_compile_status h w =
     (case shaders w h of
        None \<Rightarrow> None
      | Some sh \<Rightarrow>
          Some (compile_status sh,
                logcall (GlGetShaderiv_compile_status h (compile_status sh)) w))"

text \<open>
  \<open>glGetShaderInfoLog(h, bufSize, NULL, infoLog)\<close>: at most \<open>bufSize - 1\<close>
  characters of the log, then the terminator.
\<close>

definition glGetShaderInfoLog ::
  "env \<Rightarrow> GLuint \<Rightarrow> nat \<Rightarrow> world \<Rightarrow> (string \<times> world) option" where
  "glGetShaderInfoLog env h bufSize w =
     (case shaders w h of
        None \<Rightarrow> None
      | Some sh \<Rightarrow>
          (let infoLog = take (bufSize - 1) (shader_log env (shader_stage sh) (shader_source sh))
           in Some (infoLog, logcall (GlGetShaderInfoLog h bufSize infoLog) w)))"

definition glCreateProgram :: "env \<Rightarrow> world \<Rightarrow> GLuint \<times> world" where
  "glCreateProgram env w =
     (let p = create_program env
      in (p,
          logcall (GlCreateProgram p)
            (if p = 0 then w
             else w\<lparr>programs := (programs w)(p \<mapsto> \<lparr>attached = [], link_status = False\<rparr>)\<rparr>)))"

definition glAttachShader :: "GLuint \<Rightarrow> GLuint \<Rightarrow> world \<Rightarrow> world" where
  "glAttachShader p h w =
     logcall (GlAttachShader p h)
       (case programs w p of
          None \<Rightarrow> w
        | Some pr \<Rightarrow>
            if shaders w h = None \<or> h \<in> set (attached pr) then w
            else w\<lparr>programs := (programs w)(p \<mapsto> pr\<lparr>attached := attached pr @ [h]\<rparr>)\<rparr>)"

text \<open>What a program object links: the stage and source of each attached shader.\<close>

definition attached_sources :: "world \<Rightarrow> program \<Rightarrow> (stage \<times> byte list) list" where
  "attached_sources w pr =
     concat (map (\<lambda>h. case shaders w h of
                         None \<Rightarrow> []
                       | Some sh \<Rightarrow> [(shader_stage sh, shader_source sh)])
                 (attached pr))"

definition glLinkProgram :: "env \<Rightarrow> GLuint \<Rightarrow> world \<Rightarrow> world" where
  "glLinkProgram env p w =
     logcall (GlLinkProgram p)
       (case programs w p of
          None \<Rightarrow> w
        | Some pr \<Rightarrow>
            w\<lparr>programs := (programs w)(p \<mapsto>
                 pr\<lparr>link_status := links env (attached_sources w pr)\<rparr>)\<rparr>)"

definition glGetProgramiv_link_status :: "GLuint \<Rightarrow> world \<Rightarrow> (bool \<times> world) option" where
  "glGetProgramiv_link_status p w =
     (case programs w p of
        None \<Rightarrow> None
      | Some pr \<Rightarrow>
          Some (link_status pr, logcall (GlGetProgramiv_link_status p (link_status pr)) w))"

definition glGetProgramInfoLog ::
  "env \<Rightarrow> GLuint \<Rightarrow> nat \<Rightarrow> world \<Rightarrow> (string \<times> world) option" where
  "glGetProgramInfoLog env p bufSize w =
     (case programs w p of
        None \<Rightarrow> None
      | Some pr \<Rightarrow>
          (let infoLog = take (bufSize - 1) (program_log env (attached_sources w pr))
           in Some (infoLog, logcall (GlGetProgramInfoLog p bufSize infoLog) w)))"

text \<open>
  \<open>glDeleteShader\<close> sets the object's delete status: the driver frees it at once, or,
  while it is attached to a program object, when it is detached.
\<close>

definition glDeleteShader :: "GLuint \<Rightarrow> world \<Rightarrow> world" where
  "glDeleteShader h w =
     logcall (GlDeleteShader h)
       (case shaders w h of
          None \<Rightarrow> w
        | Some sh \<Rightarrow> w\<lparr>shaders := (shaders w)(h \<mapsto> sh\<lparr>delete_status := True\<rparr>)\<rparr>)"

subsection \<open>glcMakeShaderProgram\<close>

text \<open>
  Lines 72-75 and 97-101: count the file, rewind, allocate, read.
  \<^verbatim>\<open>
  length = 0;
  do { length++; } while(fgetc(file) != EOF);
  fseek(file, 0, SEEK_SET);
  source = calloc(length + 1, sizeof(char));
  fread(source, sizeof(char), length, file);
  \<close>
  (for the vertex file, \<open>length\<close> is 0 from its declaration). The result is the
  pointer \<open>source\<close> and the contents of its block. \<open>calloc\<close>'s result is not
  checked: reading into NULL is undefined, as is \<open>length + 1\<close> beyond \<open>INT_MAX\<close>.
\<close>

definition read_source :: "env \<Rightarrow> FILE \<Rightarrow> world \<Rightarrow> (ptr \<times> byte list \<times> world) option" where
  "read_source env file w =
     (case scan_length file 0 w of
        None \<Rightarrow> None
      | Some (len, w1) \<Rightarrow>
          (let w2 = fseek_set file 0 w1
           in if INT_MAX < len + 1 then None
              else (case calloc env (len + 1) 1 w2 of
                      (None, w3) \<Rightarrow> None
                    | (Some (source, buf), w3) \<Rightarrow>
                        (case fread source 1 len file w3 of
                           (bs, w4) \<Rightarrow>
                             if length buf < length bs then None
                             else Some (source, bs @ drop (length bs) buf, w4)))))"

text \<open>
  Lines 71-95, \<^verbatim>\<open>/* Compile Vertex Shader */\<close>. \<open>Inl w\<close>: the function has
  returned -1 in world \<open>w\<close>; \<open>Inr (vertexShader, w)\<close>: it goes on.
\<close>

definition compile_vertex ::
  "env \<Rightarrow> FILE \<Rightarrow> FILE \<Rightarrow> world \<Rightarrow> (world + GLuint \<times> world) option" where
  "compile_vertex env vertexFile fragmentFile w =
     (case read_source env vertexFile w of
        None \<Rightarrow> None
      | Some (source, buf, w1) \<Rightarrow>
          (case glCreateShader env GL_VERTEX_SHADER w1 of
             (vertexShader, w2) \<Rightarrow>
               if vertexShader = 0
               then Some (Inl (free source (fclose fragmentFile (fclose vertexFile
                      (fprintf ''Error creating vertex shader object.\<newline>'' [] w2)))))
               else (case glShaderSource vertexShader buf w2 of
                       None \<Rightarrow> None
                     | Some w3 \<Rightarrow>
                         (case glGetShaderiv_compile_status vertexShader
                                 (glCompileShader env vertexShader w3) of
                            None \<Rightarrow> None
                          | Some (success, w4) \<Rightarrow>
                              if \<not> success
                              then (case glGetShaderInfoLog env vertexShader 512 w4 of
                                      None \<Rightarrow> None
                                    | Some (infoLog, w5) \<Rightarrow>
                                        Some (Inl (free source (fclose fragmentFile (fclose vertexFile
                                          (fprintf ''Vertex shader compilation error!\<newline>%s\<newline>''
                                             [Str infoLog] w5))))))
                              else Some (Inr (vertexShader, free source w4))))))"

text \<open>Lines 96-122, \<^verbatim>\<open>/* Compile Fragment Shader */\<close>.\<close>

definition compile_fragment ::
  "env \<Rightarrow> FILE \<Rightarrow> FILE \<Rightarrow> world \<Rightarrow> (world + GLuint \<times> world) option" where
  "compile_fragment env vertexFile fragmentFile w =
     (case read_source env fragmentFile w of
        None \<Rightarrow> None
      | Some (source, buf, w1) \<Rightarrow>
          (case glCreateShader env GL_FRAGMENT_SHADER w1 of
             (fragmentShader, w2) \<Rightarrow>
               if fragmentShader = 0
               then Some (Inl (free source (fclose fragmentFile (fclose vertexFile
                      (fprintf ''Error creating fragment shader object.\<newline>'' [] w2)))))
               else (case glShaderSource fragmentShader buf w2 of
                       None \<Rightarrow> None
                     | Some w3 \<Rightarrow>
                         (case glGetShaderiv_compile_status fragmentShader
                                 (glCompileShader env fragmentShader w3) of
                            None \<Rightarrow> None
                          | Some (success, w4) \<Rightarrow>
                              if \<not> success
                              then (case glGetShaderInfoLog env fragmentShader 512 w4 of
                                      None \<Rightarrow> None
                                    | Some (infoLog, w5) \<Rightarrow>
                                        Some (Inl (free source (fclose fragmentFile (fclose vertexFile
                                          (fprintf ''Fragment shader compilation error!\<newline>%s\<newline>''
                                             [Str infoLog] w5))))))
                              else Some (Inr (fragmentShader,
                                     free source (fclose fragmentFile (fclose vertexFile w4))))))))"

text \<open>
  Lines 123-144, \<^verbatim>\<open>/* Create Shader Program */\<close> and \<^verbatim>\<open>/* cleanup */\<close>.
  The result is the return value, the value of \<open>*program\<close> and the world.
\<close>

definition link_program ::
  "env \<Rightarrow> GLuint \<Rightarrow> GLuint \<Rightarrow> world \<Rightarrow> (c_int \<times> GLuint \<times> world) option" where
  "link_program env vertexShader fragmentShader w =
     (case glCreateProgram env w of
        (p, w1) \<Rightarrow>
          (let program = p; w2 = logcall (Assign_program p) w1
           in if program = 0
              then Some (- 1, program,
                     fprintf ''Error creating shader program object.\<newline>'' [] w2)
              else (case glGetProgramiv_link_status program
                           (glLinkProgram env program
                              (glAttachShader program fragmentShader
                                 (glAttachShader program vertexShader w2))) of
                      None \<Rightarrow> None
                    | Some (success, w3) \<Rightarrow>
                        if \<not> success
                        then (case glGetProgramInfoLog env program 512 w3 of
                                None \<Rightarrow> None
                              | Some (infoLog, w4) \<Rightarrow>
                                  Some (- 1, program,
                                    fprintf ''Shader program linking error!\<newline>%s\<newline>''
                                      [Str infoLog] w4))
                        else Some (1, program,
                               glDeleteShader fragmentShader (glDeleteShader vertexShader w3)))))"

text \<open>
  \<open>glcMakeShaderProgram(program, vertexShaderPath, fragmentShaderPath)\<close>. The
  argument \<open>program\<close> is the value of the caller's variable \<open>*program\<close> at entry;
  the result is the return value (1 or -1), the value of \<open>*program\<close> at exit and the
  world at exit, or \<open>None\<close> where the behaviour of the C code is undefined.
\<close>

definition glcMakeShaderProgram ::
  "env \<Rightarrow> GLuint \<Rightarrow> string \<Rightarrow> string \<Rightarrow> world \<Rightarrow> (c_int \<times> GLuint \<times> world) option" where
  "glcMakeShaderProgram env program vertexShaderPath fragmentShaderPath w =
     (case fopen_rb env vertexShaderPath w of
        (None, w1) \<Rightarrow>
          Some (- 1, program,
            fprintf ''Error opening vertex shader: %s\<newline>'' [Str vertexShaderPath] w1)
      | (Some vertexFile, w1) \<Rightarrow>
          (case fopen_rb env fragmentShaderPath w1 of
             (None, w2) \<Rightarrow>
               Some (- 1, program,
                 fclose vertexFile
                   (fprintf ''Error opening fragment shader: %s\<newline>'' [Str fragmentShaderPath] w2))
           | (Some fragmentFile, w2) \<Rightarrow>
               (case compile_vertex env vertexFile fragmentFile w2 of
                  None \<Rightarrow> None
                | Some (Inl w3) \<Rightarrow> Some (- 1, program, w3)
                | Some (Inr (vertexShader, w3)) \<Rightarrow>
                    (case compile_fragment env vertexFile fragmentFile w3 of
                       None \<Rightarrow> None
                     | Some (Inl w4) \<Rightarrow> Some (- 1, program, w4)
                     | Some (Inr (fragmentShader, w4)) \<Rightarrow>
                         link_program env vertexShader fragmentShader w4))))"

subsection \<open>The driver: uniforms\<close>

definition glGetUniformLocation :: "env \<Rightarrow> GLuint \<Rightarrow> string \<Rightarrow> world \<Rightarrow> GLint \<times> world" where
  "glGetUniformLocation env program name w =
     (let location = uniform_location env program name
      in (location, logcall (GlGetUniformLocation program name location) w))"

definition glUseProgram :: "GLuint \<Rightarrow> world \<Rightarrow> world" where
  "glUseProgram program w = logcall (GlUseProgram program) (w\<lparr>current_program := program\<rparr>)"

text \<open>
  A call of one of the twelve vector upload entry points, \<open>fn(location, count, value)\<close>;
  \<open>data\<close> is the array \<open>value\<close> points to.
\<close>

definition glUniform :: "uniform_fn \<Rightarrow> GLint \<Rightarrow> GLsizei \<Rightarrow> 32 word list \<Rightarrow> world \<Rightarrow> world" where
  "glUniform fn location count data w = logcall (GlUniform fn location count data) w"

definition glUniformMatrix ::
  "matrix_fn \<Rightarrow> GLint \<Rightarrow> GLsizei \<Rightarrow> GLboolean \<Rightarrow> 32 word list \<Rightarrow> world \<Rightarrow> world" where
  "glUniformMatrix fn location count transpose' data w =
     logcall (GlUniformMatrix fn location count transpose' data) w"

text \<open>\<open>sizeof(GLfloat)\<close>, \<open>sizeof(GLint)\<close>, \<open>sizeof(GLuint)\<close>: OpenGL fixes these types at 32 bits.\<close>

definition sizeof_GLfloat :: nat where "sizeof_GLfloat = 4"
definition sizeof_GLint :: nat where "sizeof_GLint = 4"
definition sizeof_GLuint :: nat where "sizeof_GLuint = 4"

subsection \<open>glcSetUniformx\<close>

text \<open>
  The body of the loop of lines 186-194: one \<open>va_arg\<close> at the type the tag selects,
  converted to the element type. The result is the element and the rest of the argument
  list; \<open>None\<close> where no argument is left or it has another type.
\<close>

definition next_value :: "env \<Rightarrow> c_int \<Rightarrow> c_arg list \<Rightarrow> (32 word \<times> c_arg list) option" where
  "next_value env ty vl =
     (if ty = GL_FLOAT env
      then (case vl of ArgDouble d # vl' \<Rightarrow> Some (narrow env d, vl') | _ \<Rightarrow> None)
      else if ty = GL_INT env
      then (case vl of ArgInt i # vl' \<Rightarrow> Some (i, vl') | _ \<Rightarrow> None)
      else (case vl of ArgUInt u # vl' \<Rightarrow> Some (u, vl') | _ \<Rightarrow> None))"

text \<open>\<open>for(i = 0; i < dimension; i++) data[i] = ...\<close>; \<open>data\<close> holds the elements written so far.\<close>

function fill_data ::
  "env \<Rightarrow> c_int \<Rightarrow> nat \<Rightarrow> nat \<Rightarrow> c_arg list \<Rightarrow> 32 word list \<Rightarrow> 32 word list option" where
  "fill_data env ty i dimension vl data =
     (if i < dimension
      then (case next_value env ty vl of
              None \<Rightarrow> None
            | Some (v, vl') \<Rightarrow> fill_data env ty (i + 1) dimension vl' (data @ [v]))
      else Some data)"
  by pat_completeness auto

termination fill_data
  by (relation "measure (\<lambda>(env, ty, i, dimension, vl, data). dimension - i)") auto

declare fill_data.simps [simp del]

text \<open>
  \<open>glcSetUniformx(program, name, type, dimension, ...)\<close>; \<open>ty\<close> is the parameter
  \<open>type\<close> and \<open>vl\<close> the list of the variadic arguments. The result is the return
  value and the world at exit, or \<open>None\<close> where a \<open>va_arg\<close> is undefined.
\<close>

definition glcSetUniformx ::
  "env \<Rightarrow> GLuint \<Rightarrow> string \<Rightarrow> c_int \<Rightarrow> c_int \<Rightarrow> c_arg list \<Rightarrow> world \<Rightarrow> (c_int \<times> world) option" where
  "glcSetUniformx env program name ty dimension vl w =
     (if dimension <s 1 \<or> 4 <s dimension
      then Some (- 1, fprintf ''Dimension invalid. Must be 1-4. Got %d.\<newline>'' [Dec dimension] w)
      else (case glGetUniformLocation env program name w of
              (location, w1) \<Rightarrow>
                if location = - 1
                then Some (- 1, fprintf ''Uniform name invalid: %s\<newline>'' [Str name] w1)
                else (case malloc env
                             (if ty = GL_FLOAT env then sizeof_GLfloat * nat (sint dimension)
                              else if ty = GL_INT env then sizeof_GLint * nat (sint dimension)
                              else sizeof_GLuint * nat (sint dimension))
                             (glUseProgram program w1) of
                        (None, w2) \<Rightarrow>
                          Some (- 1,
                            fprintf ''Error allocating memory when setting uniform.\<newline>'' [] w2)
                      | (Some data, w2) \<Rightarrow>
                          (case fill_data env ty 0 (nat (sint dimension)) vl [] of
                             None \<Rightarrow> None
                           | Some elems \<Rightarrow>
                               Some (1, free data
                                 (if dimension = 1
                                  then (if ty = GL_FLOAT env then glUniform glUniform1fv location 1 elems w2
                                        else if ty = GL_INT env then glUniform glUniform1iv location 1 elems w2
                                        else glUniform glUniform1uiv location 1 elems w2)
                                  else if dimension = 2
                                  then (if ty = GL_FLOAT env then glUniform glUniform2fv location 1 elems w2
                                        else if ty = GL_INT env then glUniform glUniform2iv location 1 elems w2
                                        else glUniform glUniform2uiv location 1 elems w2)
                                  else if dimension = 3
                                  then (if ty = GL_FLOAT env then glUniform glUniform3fv location 1 elems w2
                                        else if ty = GL_INT env then glUniform glUniform3iv location 1 elems w2
                                        else glUniform glUniform3uiv location 1 elems w2)
                                  else (if ty = GL_FLOAT env then glUniform glUniform4fv location 1 elems w2
                                        else if ty = GL_INT env then glUniform glUniform4iv location 1 elems w2
                                        else glUniform glUniform4uiv location 1 elems w2)))))))"

subsection \<open>glcSetUniformxv\<close>

text \<open>
  \<open>glcSetUniformxv(program, name, type, dimension, amount, uniform)\<close>; \<open>ty\<close>
  is the parameter \<open>type\<close> and \<open>uniform\<close> the caller's array, handed to the driver
  as it is: the function does not look at its length, and the driver reads
  \<open>amount * dimension\<close> elements of it.
\<close>

definition glcSetUniformxv ::
  "env \<Rightarrow> GLuint \<Rightarrow> string \<Rightarrow> c_int \<Rightarrow> c_int \<Rightarrow> c_int \<Rightarrow> 32 word list \<Rightarrow> world \<Rightarrow> c_int \<times> world" where
  "glcSetUniformxv env program name ty dimension amount uniform w =
     (if dimension <s 1 \<or> 4 <s dimension
      then (- 1, fprintf ''Dimension invalid. Must be 1-4. Got %d.\<newline>'' [Dec dimension] w)
      else if amount \<le>s 0
      then (- 1, fprintf ''Amount invalid. Must be larger than 0. Got %d\<newline>'' [Dec amount] w)
      else (case glGetUniformLocation env program name w of
              (location, w1) \<Rightarrow>
                if location = - 1
                then (- 1, fprintf ''Uniform name invalid: %s\<newline>'' [Str name] w1)
                else (let w2 = glUseProgram program w1
                      in (1,
                          if dimension = 1
                          then (if ty = GL_FLOAT env then glUniform glUniform1fv location amount uniform w2
                                else if ty = GL_INT env then glUniform glUniform1iv location amount uniform w2
                                else glUniform glUniform1uiv location amount uniform w2)
                          else if dimension = 2
                          then (if ty = GL_FLOAT env then glUniform glUniform2fv location amount uniform w2
                                else if ty = GL_INT env then glUniform glUniform2iv location amount uniform w2
                                else glUniform glUniform2uiv location amount uniform w2)
                          else if dimension = 3
                          then (if ty = GL_FLOAT env then glUniform glUniform3fv location amount uniform w2
                                else if ty = GL_INT env then glUniform glUniform3iv location amount uniform w2
                                else glUniform glUniform3uiv location amount uniform w2)
                          else (if ty = GL_FLOAT env then glUniform glUniform4fv location amount uniform w2
                                else if ty = GL_INT env then glUniform glUniform4iv location amount uniform w2
                                else glUniform glUniform4uiv location amount uniform w2)))))"

subsection \<open>glcSetUniformMatx\<close>

definition glcSetUniformMatx ::
  "env \<Rightarrow> GLuint \<Rightarrow> string \<Rightarrow> c_int \<Rightarrow> c_int \<Rightarrow> GLboolean \<Rightarrow> 32 word list \<Rightarrow> world \<Rightarrow> c_int \<times> world" where
  "glcSetUniformMatx env program name dimension amount transpose' uniform w =
     (if dimension <s 2 \<or> 4 <s dimension
      then (- 1, fprintf ''Dimension invalid. Must be 2-4. Got %d.\<newline>'' [Dec dimension] w)
      else (case glGetUniformLocation env program name w of
              (location, w1) \<Rightarrow>
                if location = - 1
                then (- 1, fprintf ''Uniform name invalid: %s\<newline>'' [Str name] w1)
                else (let w2 = glUseProgram program w1
                      in (1,
                          if dimension = 2
                          then glUniformMatrix glUniformMatrix2fv location amount transpose' uniform w2
                          else if dimension = 3
                          then glUniformMatrix glUniformMatrix3fv location amount transpose' uniform w2
                          else glUniformMatrix glUniformMatrix4fv location amount transpose' uniform w2))))"

subsection \<open>Reading a run\<close>

text \<open>The calls a run makes: what it appends to the trace.\<close>

definition new_calls :: "world \<Rightarrow> world \<Rightarrow> call list" where
  "new_calls w w' = drop (length (trace w)) (trace w')"

text \<open>The store into the caller's variable.\<close>

fun assigns_program :: "call \<Rightarrow> bool" where
  "assigns_program (Assign_program v) = True"
| "assigns_program _ = False"

text \<open>
  The failures glcMakeShaderProgram tests for before it creates the program object:
  \<open>fopen\<close> returns NULL, \<open>glCreateShader\<close> returns 0, the compile status is false.
\<close>

fun early_failure :: "call \<Rightarrow> bool" where
  "early_failure (Fopen path None) = True"
| "early_failure (GlCreateShader st h) = (h = 0)"
| "early_failure (GlGetShaderiv_compile_status h ok) = (\<not> ok)"
| "early_failure _ = False"

definition quiet :: "call \<Rightarrow> bool" where
  "quiet c = (\<not> early_failure c \<and> \<not> assigns_program c)"

text \<open>
  The dispatch table as the specification words it: the element type and the dimension
  select the entry point \<open>glUniform{1|2|3|4}{f|i|ui}v\<close>.
\<close>

datatype component = ComponentFloat | ComponentInt | ComponentUInt

definition upload_fn :: "component \<Rightarrow> nat \<Rightarrow> uniform_fn" where
  "upload_fn c d =
     (case c of
        ComponentFloat \<Rightarrow> [glUniform1fv, glUniform2fv, glUniform3fv, glUniform4fv] ! (d - 1)
      | ComponentInt \<Rightarrow> [glUniform1iv, glUniform2iv, glUniform3iv, glUniform4iv] ! (d - 1)
      | ComponentUInt \<Rightarrow> [glUniform1uiv, glUniform2uiv, glUniform3uiv, glUniform4uiv] ! (d - 1))"

definition matrix_upload_fn :: "nat \<Rightarrow> matrix_fn" where
  "matrix_upload_fn d = [glUniformMatrix2fv, glUniformMatrix3fv, glUniformMatrix4fv] ! (d - 2)"

subsection \<open>A concrete outside world\<close>

text \<open>
  The conversion \<open>(GLfloat)\<close> of a double on an IEEE 754 platform, on bit patterns:
  binary64 to binary32 under the default rounding (to nearest, ties to even). A value
  too large becomes an infinity, one too small a subnormal or zero, and a NaN a quiet NaN
  with the upper bits of its payload.
\<close>

definition double_to_float :: "double \<Rightarrow> GLfloat" where
  "double_to_float d =
     (let n = unat d;
          sign = (n div 2 ^ 63) * 2 ^ 31;
          e = (n div 2 ^ 52) mod 2 ^ 11;
          m = n mod 2 ^ 52
      in word_of_nat
           (sign +
            (if e = 2047
             then (if m = 0 then 0x7F800000
                   else 0x7F800000 +
                        (if m div 2 ^ 29 < 2 ^ 22 then m div 2 ^ 29 + 2 ^ 22 else m div 2 ^ 29))
             else if e = 0 then 0
             else if 1151 \<le> e then 0x7F800000
             else (let sh = (if 897 \<le> e then 29 else 29 + (897 - e));
                       base = (if 897 \<le> e then (e - 897) * 2 ^ 23 else 0);
                       q = (2 ^ 52 + m) div 2 ^ sh;
                       r = (2 ^ 52 + m) mod 2 ^ sh
                   in base +
                      (if 2 ^ (sh - 1) < r \<or> (r = 2 ^ (sh - 1) \<and> odd q) then q + 1
                       else q)))))"

text \<open>
  Two small files, a driver that numbers its objects 1, 2, 3 and accepts everything, one
  uniform named \<open>color\<close> at location 0, the tag values of the Khronos headers and the
  IEEE 754 conversion. The failing worlds below change one answer of this one.
\<close>

definition env0 :: env where
  "env0 =
     \<lparr>file_system = (\<lambda>path. if path = ''v.glsl'' then Some [118, 59]
                             else if path = ''f.glsl'' then Some [102]
                             else None),
      alloc_ok = (\<lambda>n. True),
      create_shader = (\<lambda>st. case st of GL_VERTEX_SHADER \<Rightarrow> 1 | GL_FRAGMENT_SHADER \<Rightarrow> 2),
      compiles = (\<lambda>st src. True),
      shader_log = (\<lambda>st src. ''syntax error''),
      create_program = 3,
      links = (\<lambda>units. True),
      program_log = (\<lambda>units. ''link error''),
      uniform_location = (\<lambda>program name. if name = ''color'' then 0 else - 1),
      GL_FLOAT = 0x1406, GL_INT = 0x1404, GL_UNSIGNED_INT = 0x1405,
      narrow = double_to_float\<rparr>"

definition world0 :: world where
  "world0 =
     \<lparr>streams = Map.empty, heap = Map.empty, next_id = 0, shaders = Map.empty,
      programs = Map.empty, current_program = 0, trace = []\<rparr>"

section \<open>Properties\<close>

subsection \<open>Unfolding the primitives\<close>

lemmas libc_defs = fopen_rb_def fclose_def fgetc_def fseek_set_def calloc_def malloc_def
  free_def fread_def fprintf_def logcall_def INT_MAX_def

lemmas gl_defs = glCreateShader_def glShaderSource_def glCompileShader_def
  glGetShaderiv_compile_status_def glGetShaderInfoLog_def glCreateProgram_def
  glAttachShader_def attached_sources_def glLinkProgram_def glGetProgramiv_link_status_def
  glGetProgramInfoLog_def glDeleteShader_def glGetUniformLocation_def glUseProgram_def
  glUniform_def glUniformMatrix_def

lemmas make_defs = glcMakeShaderProgram_def compile_vertex_def compile_fragment_def
  link_program_def read_source_def

lemmas step_defs = glCreateShader_def glShaderSource_def glCompileShader_def
  glGetShaderiv_compile_status_def glGetShaderInfoLog_def free_def fclose_def fprintf_def
  logcall_def Let_def

subsection \<open>The uniform setters: the branches taken\<close>

lemmas signed_compare = word_sless_alt word_sle_eq

lemma upload_fn_values:
  "upload_fn c (Suc 0) = (case c of ComponentFloat \<Rightarrow> glUniform1fv | ComponentInt \<Rightarrow> glUniform1iv | ComponentUInt \<Rightarrow> glUniform1uiv)"
  "upload_fn c 2 = (case c of ComponentFloat \<Rightarrow> glUniform2fv | ComponentInt \<Rightarrow> glUniform2iv | ComponentUInt \<Rightarrow> glUniform2uiv)"
  "upload_fn c 3 = (case c of ComponentFloat \<Rightarrow> glUniform3fv | ComponentInt \<Rightarrow> glUniform3iv | ComponentUInt \<Rightarrow> glUniform3uiv)"
  "upload_fn c 4 = (case c of ComponentFloat \<Rightarrow> glUniform4fv | ComponentInt \<Rightarrow> glUniform4iv | ComponentUInt \<Rightarrow> glUniform4uiv)"
  by (simp_all add: upload_fn_def split: component.splits)

lemma upload_fn_inj: "inj_on (\<lambda>(c, d). upload_fn c d) (UNIV \<times> {1, 2, 3, 4})"
proof (rule inj_onI, clarify)
  fix c d c' d'
  assume d: "d \<in> {1, 2, 3, 4 :: nat}" and d': "d' \<in> {1, 2, 3, 4 :: nat}"
    and e: "upload_fn c d = upload_fn c' d'"
  from d d' e show "c = c' \<and> d = d'"
    by (cases c; cases c'; auto simp: upload_fn_values)
qed

lemma fill_data_float:
  assumes "ty = GL_FLOAT env" and "i + length ds = dimension"
  shows "fill_data env ty i dimension (map ArgDouble ds @ rest) data =
           Some (data @ map (narrow env) ds)"
  using assms(2)
proof (induction ds arbitrary: i data)
  case Nil
  then show ?case by (subst fill_data.simps) simp
next
  case (Cons a ds)
  from Cons.prems have "i < dimension" by simp
  then have "fill_data env ty i dimension (map ArgDouble (a # ds) @ rest) data =
      fill_data env ty (i + 1) dimension (map ArgDouble ds @ rest) (data @ [narrow env a])"
    using assms(1) by (subst fill_data.simps) (simp add: next_value_def)
  also have "\<dots> = Some ((data @ [narrow env a]) @ map (narrow env) ds)"
    using Cons.prems by (intro Cons.IH) simp
  finally show ?case by simp
qed

lemma fill_data_int:
  assumes "ty \<noteq> GL_FLOAT env" and "ty = GL_INT env" and "i + length xs = dimension"
  shows "fill_data env ty i dimension (map ArgInt xs @ rest) data = Some (data @ xs)"
  using assms(3)
proof (induction xs arbitrary: i data)
  case Nil
  then show ?case by (subst fill_data.simps) simp
next
  case (Cons a xs)
  from Cons.prems have "i < dimension" by simp
  then have "fill_data env ty i dimension (map ArgInt (a # xs) @ rest) data =
      fill_data env ty (i + 1) dimension (map ArgInt xs @ rest) (data @ [a])"
    using assms(1,2) by (subst fill_data.simps) (simp add: next_value_def)
  also have "\<dots> = Some ((data @ [a]) @ xs)"
    using Cons.prems by (intro Cons.IH) simp
  finally show ?case by simp
qed

lemma fill_data_uint:
  assumes "ty \<noteq> GL_FLOAT env" and "ty \<noteq> GL_INT env" and "i + length xs = dimension"
  shows "fill_data env ty i dimension (map ArgUInt xs @ rest) data = Some (data @ xs)"
  using assms(3)
proof (induction xs arbitrary: i data)
  case Nil
  then show ?case by (subst fill_data.simps) simp
next
  case (Cons a xs)
  from Cons.prems have "i < dimension" by simp
  then have "fill_data env ty i dimension (map ArgUInt (a # xs) @ rest) data =
      fill_data env ty (i + 1) dimension (map ArgUInt xs @ rest) (data @ [a])"
    using assms(1,2) by (subst fill_data.simps) (simp add: next_value_def)
  also have "\<dots> = Some ((data @ [a]) @ xs)"
    using Cons.prems by (intro Cons.IH) simp
  finally show ?case by simp
qed

lemma next_value_fallback:
  assumes "ty \<noteq> GL_FLOAT env" and "ty \<noteq> GL_INT env"
    and "ty' \<noteq> GL_FLOAT env" and "ty' \<noteq> GL_INT env"
  shows "next_value env ty vl = next_value env ty' vl"
  using assms by (simp add: next_value_def)

lemma fill_data_fallback:
  assumes "ty \<noteq> GL_FLOAT env" and "ty \<noteq> GL_INT env"
    and "ty' \<noteq> GL_FLOAT env" and "ty' \<noteq> GL_INT env"
  shows "fill_data env ty i dimension vl data = fill_data env ty' i dimension vl data"
proof (induction "dimension - i" arbitrary: i vl data)
  case 0
  then show ?case by (simp add: fill_data.simps [of env _ i])
next
  case (Suc n)
  then have lt: "i < dimension" and n: "n = dimension - (i + 1)" by simp_all
  show ?case
  proof (cases "next_value env ty' vl")
    case None
    with lt show ?thesis
      by (simp add: fill_data.simps [of env _ i] next_value_fallback [OF assms, of vl])
  next
    case (Some r)
    obtain v vl' where r: "r = (v, vl')" by (cases r)
    from Suc.hyps(1) [OF n] lt Some r show ?thesis
      by (simp add: fill_data.simps [of env _ i] next_value_fallback [OF assms, of vl])
  qed
qed

lemma dimension_cases:
  assumes "1 \<le> sint (dimension :: c_int)" and "sint dimension \<le> 4"
  shows "dimension = 1 \<or> dimension = 2 \<or> dimension = 3 \<or> dimension = 4"
proof -
  have "sint dimension = 1 \<or> sint dimension = 2 \<or> sint dimension = 3 \<or> sint dimension = 4"
    using assms by arith
  then have "sint dimension = sint (1 :: c_int) \<or> sint dimension = sint (2 :: c_int)
      \<or> sint dimension = sint (3 :: c_int) \<or> sint dimension = sint (4 :: c_int)"
    by simp
  then show ?thesis
    by (blast intro: signed_word_eqI)
qed


lemmas setter_defs = glGetUniformLocation_def glUseProgram_def glUniform_def
  glUniformMatrix_def malloc_def free_def fprintf_def logcall_def Let_def
  sizeof_GLfloat_def sizeof_GLint_def sizeof_GLuint_def

lemma xv_dispatch:
  assumes "1 \<le> sint dimension" and "sint dimension \<le> 4"
    and "uniform_location env program name \<noteq> - 1" and "0 < sint amount"
  shows "glcSetUniformxv env program name ty dimension amount uniform w =
           (1, w\<lparr>current_program := program,
                 trace := trace w @
                   [GlGetUniformLocation program name (uniform_location env program name),
                    GlUseProgram program,
                    GlUniform
                      (upload_fn (if ty = GL_FLOAT env then ComponentFloat
                                  else if ty = GL_INT env then ComponentInt
                                  else ComponentUInt) (nat (sint dimension)))
                      (uniform_location env program name) amount uniform]\<rparr>)"
  using dimension_cases [OF assms(1,2)] assms(3,4)
  by (elim disjE; simp add: glcSetUniformxv_def signed_compare setter_defs upload_fn_values)

lemma x_dispatch:
  assumes "1 \<le> sint dimension" and "sint dimension \<le> 4"
    and "uniform_location env program name \<noteq> - 1"
    and "alloc_ok env (4 * nat (sint dimension))"
    and "fill_data env ty 0 (nat (sint dimension)) vl [] = Some elems"
  shows "glcSetUniformx env program name ty dimension vl w =
           Some (1, w\<lparr>heap := (heap w)(next_id w := None),
                 next_id := Suc (next_id w),
                 current_program := program,
                 trace := trace w @
                   [GlGetUniformLocation program name (uniform_location env program name),
                    GlUseProgram program,
                    Malloc (4 * nat (sint dimension)) (Some (next_id w)),
                    GlUniform
                      (upload_fn (if ty = GL_FLOAT env then ComponentFloat
                                  else if ty = GL_INT env then ComponentInt
                                  else ComponentUInt) (nat (sint dimension)))
                      (uniform_location env program name) 1 elems,
                    Free (next_id w)]\<rparr>)"
  using dimension_cases [OF assms(1,2)] assms(3,4,5)
  by (elim disjE; simp add: glcSetUniformx_def signed_compare setter_defs upload_fn_values)

subsection \<open>glcMakeShaderProgram: reading and compiling a file\<close>

text \<open>
  For a stream at its start over a file of N bytes the counting loop returns N + 1, having
  called \<open>fgetc\<close> N + 1 times.
\<close>

lemma scan_length_run:
  assumes "streams w f = Some s" and "pos s \<le> length (contents s)"
    and "len + (length (contents s) - pos s) < INT_MAX"
  shows "scan_length f len w =
           Some (len + (length (contents s) - pos s) + 1,
                 w\<lparr>streams := (streams w)(f \<mapsto> s\<lparr>pos := length (contents s)\<rparr>),
                   trace := trace w @ map (\<lambda>b. Fgetc f (Some b)) (drop (pos s) (contents s))
                              @ [Fgetc f None]\<rparr>)"
  using assms
proof (induction "length (contents s) - pos s" arbitrary: len w s)
  case 0
  then have p: "pos s = length (contents s)" by simp
  then have "s\<lparr>pos := length (contents s)\<rparr> = s" by simp
  then have e: "(streams w)(f \<mapsto> s\<lparr>pos := length (contents s)\<rparr>) = streams w"
    using "0.prems"(1) by (simp add: map_upd_triv)
  have "\<not> INT_MAX \<le> len" using "0.prems"(3) by simp
  then show ?case using "0.prems"(1) p
    by (subst scan_length.simps) (simp add: fgetc_def logcall_def e)
next
  case (Suc n)
  then have lt: "pos s < length (contents s)" by simp
  let ?s = "s\<lparr>pos := Suc (pos s)\<rparr>"
  let ?w = "logcall (Fgetc f (Some (contents s ! pos s)))
              (w\<lparr>streams := (streams w)(f \<mapsto> ?s)\<rparr>)"
  have step: "fgetc f w = (Some (contents s ! pos s), ?w)"
    using Suc.prems(1) lt by (simp add: fgetc_def)
  have n: "n = length (contents ?s) - pos ?s" using Suc.hyps(2) by simp
  have IH: "scan_length f (len + 1) ?w =
       Some (len + 1 + (length (contents ?s) - pos ?s) + 1,
             ?w\<lparr>streams := (streams ?w)(f \<mapsto> ?s\<lparr>pos := length (contents ?s)\<rparr>),
                trace := trace ?w @ map (\<lambda>b. Fgetc f (Some b)) (drop (pos ?s) (contents ?s))
                           @ [Fgetc f None]\<rparr>)"
    using Suc.prems lt by (intro Suc.hyps(1) [OF n]) (simp_all add: logcall_def)
  have d: "drop (pos s) (contents s) = contents s ! pos s # drop (Suc (pos s)) (contents s)"
    using lt by (simp add: Cons_nth_drop_Suc)
  have "\<not> INT_MAX \<le> len" using Suc.prems(3) by simp
  then have "scan_length f len w = scan_length f (len + 1) ?w"
    by (subst scan_length.simps) (simp add: step)
  also note IH
  finally show ?case
    using lt Suc.hyps(2) by (simp add: d logcall_def)
qed

lemma read_source_run:
  assumes "streams w f = Some \<lparr>contents = bytes, pos = 0\<rparr>"
    and "length bytes + 2 \<le> INT_MAX"
    and "alloc_ok env (length bytes + 2)"
  shows "read_source env f w =
           Some (next_id w, bytes @ [0, 0],
                 w\<lparr>streams := (streams w)(f \<mapsto> \<lparr>contents = bytes, pos = length bytes\<rparr>),
                   heap := (heap w)(next_id w \<mapsto> length bytes + 2),
                   next_id := Suc (next_id w),
                   trace := trace w @ map (\<lambda>b. Fgetc f (Some b)) bytes
                     @ [Fgetc f None, Fseek_set f 0,
                        Calloc (length bytes + 2) 1 (Some (next_id w)),
                        Fread (next_id w) 1 (length bytes + 1) f bytes]\<rparr>)"
proof -
  have "scan_length f 0 w =
          Some (length bytes + 1,
                w\<lparr>streams := (streams w)(f \<mapsto> \<lparr>contents = bytes, pos = length bytes\<rparr>),
                  trace := trace w @ map (\<lambda>b. Fgetc f (Some b)) bytes @ [Fgetc f None]\<rparr>)"
    using scan_length_run [OF assms(1), of 0] assms(2) by simp
  moreover have "(0::byte) # 0 # replicate (length bytes) 0 = replicate (length bytes) 0 @ [0, 0]"
    by (induction bytes) simp_all
  then have "drop (length bytes) ((0::byte) # 0 # replicate (length bytes) 0) = [0, 0]"
    by simp
  ultimately show ?thesis
    using assms(2,3)
    by (simp add: read_source_def fseek_set_def calloc_def fread_def logcall_def Let_def)
qed


lemma c_string_terminated: "c_string (bytes @ [0, 0]) = c_string bytes"
  by (induction bytes) (simp_all add: c_string_def)

lemma compile_vertex_ok:
  assumes "streams w vertexFile = Some \<lparr>contents = bytes, pos = 0\<rparr>"
    and "length bytes + 2 \<le> INT_MAX"
    and "alloc_ok env (length bytes + 2)"
    and "create_shader env GL_VERTEX_SHADER \<noteq> 0"
    and "compiles env GL_VERTEX_SHADER (c_string bytes)"
  shows "compile_vertex env vertexFile fragmentFile w =
           Some (Inr (create_shader env GL_VERTEX_SHADER,
             w\<lparr>streams := (streams w)(vertexFile \<mapsto> \<lparr>contents = bytes, pos = length bytes\<rparr>),
               heap := (heap w)(next_id w := None),
               next_id := Suc (next_id w),
               shaders := (shaders w)(create_shader env GL_VERTEX_SHADER \<mapsto>
                 \<lparr>shader_stage = GL_VERTEX_SHADER, shader_source = c_string bytes,
                  compile_status = True, delete_status = False\<rparr>),
               trace := trace w @ map (\<lambda>b. Fgetc vertexFile (Some b)) bytes
                 @ [Fgetc vertexFile None, Fseek_set vertexFile 0,
                    Calloc (length bytes + 2) 1 (Some (next_id w)),
                    Fread (next_id w) 1 (length bytes + 1) vertexFile bytes,
                    GlCreateShader GL_VERTEX_SHADER (create_shader env GL_VERTEX_SHADER),
                    GlShaderSource (create_shader env GL_VERTEX_SHADER) (bytes @ [0, 0]),
                    GlCompileShader (create_shader env GL_VERTEX_SHADER),
                    GlGetShaderiv_compile_status (create_shader env GL_VERTEX_SHADER) True,
                    Free (next_id w)]\<rparr>))"
  using assms(4,5)
  by (simp add: compile_vertex_def read_source_run [OF assms(1-3)] glCreateShader_def
        glShaderSource_def glCompileShader_def glGetShaderiv_compile_status_def free_def
        logcall_def Let_def c_string_terminated)

lemma compile_fragment_ok:
  assumes "streams w fragmentFile = Some \<lparr>contents = bytes, pos = 0\<rparr>"
    and "length bytes + 2 \<le> INT_MAX"
    and "alloc_ok env (length bytes + 2)"
    and "create_shader env GL_FRAGMENT_SHADER \<noteq> 0"
    and "compiles env GL_FRAGMENT_SHADER (c_string bytes)"
  shows "compile_fragment env vertexFile fragmentFile w =
           Some (Inr (create_shader env GL_FRAGMENT_SHADER,
             w\<lparr>streams := (streams w)(vertexFile := None, fragmentFile := None),
               heap := (heap w)(next_id w := None),
               next_id := Suc (next_id w),
               shaders := (shaders w)(create_shader env GL_FRAGMENT_SHADER \<mapsto>
                 \<lparr>shader_stage = GL_FRAGMENT_SHADER, shader_source = c_string bytes,
                  compile_status = True, delete_status = False\<rparr>),
               trace := trace w @ map (\<lambda>b. Fgetc fragmentFile (Some b)) bytes
                 @ [Fgetc fragmentFile None, Fseek_set fragmentFile 0,
                    Calloc (length bytes + 2) 1 (Some (next_id w)),
                    Fread (next_id w) 1 (length bytes + 1) fragmentFile bytes,
                    GlCreateShader GL_FRAGMENT_SHADER (create_shader env GL_FRAGMENT_SHADER),
                    GlShaderSource (create_shader env GL_FRAGMENT_SHADER) (bytes @ [0, 0]),
                    GlCompileShader (create_shader env GL_FRAGMENT_SHADER),
                    GlGetShaderiv_compile_status (create_shader env GL_FRAGMENT_SHADER) True,
                    Fclose vertexFile, Fclose fragmentFile, Free (next_id w)]\<rparr>))"
  using assms(4,5)
  by (simp add: compile_fragment_def read_source_run [OF assms(1-3)] glCreateShader_def
        glShaderSource_def glCompileShader_def glGetShaderiv_compile_status_def free_def
        fclose_def logcall_def Let_def c_string_terminated)

lemma link_program_ok:
  assumes "shaders w vertexShader = Some vsh" and "shaders w fragmentShader = Some fsh"
    and "vertexShader \<noteq> fragmentShader"
    and "create_program env \<noteq> 0"
    and "links env [(shader_stage vsh, shader_source vsh), (shader_stage fsh, shader_source fsh)]"
  shows "link_program env vertexShader fragmentShader w =
           Some (1, create_program env,
             w\<lparr>shaders := (shaders w)(vertexShader \<mapsto> vsh\<lparr>delete_status := True\<rparr>,
                                        fragmentShader \<mapsto> fsh\<lparr>delete_status := True\<rparr>),
               programs := (programs w)(create_program env \<mapsto>
                 \<lparr>attached = [vertexShader, fragmentShader], link_status = True\<rparr>),
               trace := trace w @
                 [GlCreateProgram (create_program env), Assign_program (create_program env),
                  GlAttachShader (create_program env) vertexShader,
                  GlAttachShader (create_program env) fragmentShader,
                  GlLinkProgram (create_program env),
                  GlGetProgramiv_link_status (create_program env) True,
                  GlDeleteShader vertexShader, GlDeleteShader fragmentShader]\<rparr>)"
  using assms
  by (simp add: link_program_def glCreateProgram_def glAttachShader_def glLinkProgram_def
        attached_sources_def glGetProgramiv_link_status_def glDeleteShader_def logcall_def
        Let_def)

subsection \<open>The calls of a run of glcMakeShaderProgram\<close>

lemma quiet_simps [simp]:
  "quiet (Fopen path r) = (r \<noteq> None)"
  "quiet (Fclose f)"
  "quiet (Fgetc f x)"
  "quiet (Fseek_set f n)"
  "quiet (Calloc n m p)"
  "quiet (Malloc n p)"
  "quiet (Fread q n m f bs)"
  "quiet (Free q)"
  "quiet (Fprintf format args)"
  "\<not> quiet (Assign_program v)"
  "quiet (GlCreateShader st h) = (h \<noteq> 0)"
  "quiet (GlShaderSource h buf)"
  "quiet (GlCompileShader h)"
  "quiet (GlGetShaderiv_compile_status h ok) = ok"
  "quiet (GlGetShaderInfoLog h n text)"
  "quiet (GlCreateProgram h)"
  "quiet (GlAttachShader h h')"
  "quiet (GlLinkProgram h)"
  "quiet (GlGetProgramiv_link_status h ok)"
  "quiet (GlGetProgramInfoLog h n text)"
  "quiet (GlDeleteShader h)"
  by (cases r; simp add: quiet_def)+

lemma scan_length_calls:
  "scan_length f len w = Some (n, w') \<Longrightarrow>
     \<exists>cs. trace w' = trace w @ cs \<and> list_all quiet cs"
proof (induction f len w rule: scan_length.induct)
  case (1 f len w)
  from "1.prems" have lt: "\<not> INT_MAX \<le> len"
    by (subst (asm) scan_length.simps) (simp split: if_splits)
  obtain x w1 where g: "fgetc f w = (x, w1)" by (cases "fgetc f w")
  then have t1: "trace w1 = trace w @ [Fgetc f x]"
    by (auto simp: fgetc_def logcall_def split: option.splits if_splits)
  show ?case
  proof (cases x)
    case None
    with "1.prems" lt g have "w' = w1"
      by (subst (asm) scan_length.simps) simp
    with t1 show ?thesis by simp
  next
    case (Some c)
    with "1.prems" lt g have "scan_length f (len + 1) w1 = Some (n, w')"
      by (subst (asm) scan_length.simps) simp
    from "1.IH" [OF lt g [symmetric] Some this]
    obtain cs where "trace w' = trace w1 @ cs" "list_all quiet cs" by blast
    with t1 show ?thesis by simp
  qed
qed

lemma read_source_calls:
  assumes "read_source env f w = Some (source, buf, w')"
  shows "\<exists>cs. trace w' = trace w @ cs \<and> list_all quiet cs"
proof -
  from assms obtain len w1 where s: "scan_length f 0 w = Some (len, w1)"
    by (auto simp: read_source_def split: option.splits)
  from scan_length_calls [OF s] obtain cs where cs: "trace w1 = trace w @ cs" "list_all quiet cs"
    by blast
  from assms s have "\<exists>ds. trace w' = trace w1 @ ds \<and> list_all quiet ds"
    by (auto simp: read_source_def Let_def fseek_set_def calloc_def fread_def logcall_def
             split: option.splits if_splits prod.splits)
  with cs show ?thesis by auto
qed


lemma quiet_no_assign: "list_all quiet cs \<Longrightarrow> list_all (\<lambda>c. \<not> assigns_program c) cs"
  by (induction cs) (simp_all add: quiet_def)

lemma compile_vertex_continues:
  assumes "compile_vertex env vertexFile fragmentFile w = Some (Inr (h, w'))"
  shows "\<exists>cs. trace w' = trace w @ cs \<and> list_all quiet cs"
proof -
  from assms obtain source buf w1 where r: "read_source env vertexFile w = Some (source, buf, w1)"
    by (auto simp: compile_vertex_def split: option.splits)
  from read_source_calls [OF r] obtain cs where cs: "trace w1 = trace w @ cs" "list_all quiet cs"
    by blast
  from assms r have "\<exists>ds. trace w' = trace w1 @ ds \<and> list_all quiet ds"
    by (auto simp: compile_vertex_def step_defs split: option.splits if_splits prod.splits)
  with cs show ?thesis by auto
qed

lemma compile_vertex_returns:
  assumes "compile_vertex env vertexFile fragmentFile w = Some (Inl w')"
  shows "\<exists>cs. trace w' = trace w @ cs \<and> list_all (\<lambda>c. \<not> assigns_program c) cs"
proof -
  from assms obtain source buf w1 where r: "read_source env vertexFile w = Some (source, buf, w1)"
    by (auto simp: compile_vertex_def split: option.splits)
  from read_source_calls [OF r] obtain cs where cs: "trace w1 = trace w @ cs" "list_all quiet cs"
    by blast
  from assms r have "\<exists>ds. trace w' = trace w1 @ ds \<and> list_all (\<lambda>c. \<not> assigns_program c) ds"
    by (auto simp: compile_vertex_def step_defs split: option.splits if_splits prod.splits)
  with cs quiet_no_assign [OF cs(2)] show ?thesis by auto
qed

lemma compile_fragment_continues:
  assumes "compile_fragment env vertexFile fragmentFile w = Some (Inr (h, w'))"
  shows "\<exists>cs. trace w' = trace w @ cs \<and> list_all quiet cs"
proof -
  from assms obtain source buf w1 where r: "read_source env fragmentFile w = Some (source, buf, w1)"
    by (auto simp: compile_fragment_def split: option.splits)
  from read_source_calls [OF r] obtain cs where cs: "trace w1 = trace w @ cs" "list_all quiet cs"
    by blast
  from assms r have "\<exists>ds. trace w' = trace w1 @ ds \<and> list_all quiet ds"
    by (auto simp: compile_fragment_def step_defs split: option.splits if_splits prod.splits)
  with cs show ?thesis by auto
qed

lemma compile_fragment_returns:
  assumes "compile_fragment env vertexFile fragmentFile w = Some (Inl w')"
  shows "\<exists>cs. trace w' = trace w @ cs \<and> list_all (\<lambda>c. \<not> assigns_program c) cs"
proof -
  from assms obtain source buf w1 where r: "read_source env fragmentFile w = Some (source, buf, w1)"
    by (auto simp: compile_fragment_def split: option.splits)
  from read_source_calls [OF r] obtain cs where cs: "trace w1 = trace w @ cs" "list_all quiet cs"
    by blast
  from assms r have "\<exists>ds. trace w' = trace w1 @ ds \<and> list_all (\<lambda>c. \<not> assigns_program c) ds"
    by (auto simp: compile_fragment_def step_defs split: option.splits if_splits prod.splits)
  with cs quiet_no_assign [OF cs(2)] show ?thesis by auto
qed

lemma link_program_calls:
  assumes "link_program env vertexShader fragmentShader w = Some (r, p, w')"
  shows "\<exists>cs. trace w' = trace w @ GlCreateProgram p # Assign_program p # cs \<and> list_all quiet cs"
  using assms
  by (auto simp: link_program_def glCreateProgram_def glAttachShader_def glLinkProgram_def
        glGetProgramiv_link_status_def glGetProgramInfoLog_def glDeleteShader_def fprintf_def
        logcall_def Let_def
      split: option.splits if_splits prod.splits)

lemma quiet_no_failure: "list_all quiet cs \<Longrightarrow> \<not> list_ex early_failure cs"
  by (induction cs) (simp_all add: quiet_def)

lemma quiet_no_assign': "list_all quiet cs \<Longrightarrow> \<not> list_ex assigns_program cs"
  by (induction cs) (simp_all add: quiet_def)

lemma no_assign_list_ex:
  "list_all (\<lambda>c. \<not> assigns_program c) cs \<Longrightarrow> \<not> list_ex assigns_program cs"
  by (induction cs) simp_all

text \<open>The shape of every run that returns.\<close>

lemma make_calls:
  assumes run: "glcMakeShaderProgram env program vertexShaderPath fragmentShaderPath w =
      Some (r, program', w')"
  shows "(r = - 1 \<and> program' = program \<and> \<not> list_ex assigns_program (new_calls w w')) \<or>
         (\<exists>pre post. new_calls w w' = pre @ [GlCreateProgram program', Assign_program program'] @ post \<and>
            list_all quiet pre \<and> list_all quiet post)"
proof (cases "file_system env vertexShaderPath")
  case None
  with run have "r = - 1" "program' = program"
    "trace w' = trace w @ [Fopen vertexShaderPath None,
       Fprintf ''Error opening vertex shader: %s\<newline>'' [Str vertexShaderPath]]"
    by (auto simp: glcMakeShaderProgram_def fopen_rb_def fprintf_def logcall_def)
  then show ?thesis by (simp add: new_calls_def)
next
  case (Some vbytes)
  define w1 where "w1 = snd (fopen_rb env vertexShaderPath w)"
  have o1: "fopen_rb env vertexShaderPath w = (Some (next_id w), w1)"
    and t1: "trace w1 = trace w @ [Fopen vertexShaderPath (Some (next_id w))]"
    using Some by (simp_all add: w1_def fopen_rb_def logcall_def Let_def)
  show ?thesis
  proof (cases "file_system env fragmentShaderPath")
    case None
    with run o1 t1 have "r = - 1" "program' = program"
      "trace w' = trace w @ [Fopen vertexShaderPath (Some (next_id w)),
         Fopen fragmentShaderPath None,
         Fprintf ''Error opening fragment shader: %s\<newline>'' [Str fragmentShaderPath],
         Fclose (next_id w)]"
      by (auto simp: glcMakeShaderProgram_def fopen_rb_def [of env fragmentShaderPath]
            fprintf_def fclose_def logcall_def)
    then show ?thesis by (simp add: new_calls_def)
  next
    case (Some fbytes)
    define w2 where "w2 = snd (fopen_rb env fragmentShaderPath w1)"
    have o2: "fopen_rb env fragmentShaderPath w1 = (Some (next_id w1), w2)"
      and t2: "trace w2 = trace w @ [Fopen vertexShaderPath (Some (next_id w)),
                                     Fopen fragmentShaderPath (Some (next_id w1))]"
      using Some t1 by (simp_all add: w2_def fopen_rb_def logcall_def Let_def)
    let ?opens = "[Fopen vertexShaderPath (Some (next_id w)),
                   Fopen fragmentShaderPath (Some (next_id w1))]"
    from run o1 o2 obtain v where v: "compile_vertex env (next_id w) (next_id w1) w2 = Some v"
      by (auto simp: glcMakeShaderProgram_def split: option.splits)
    show ?thesis
    proof (cases v)
      case (Inl w3)
      with run o1 o2 v have res: "r = - 1" "program' = program" "w' = w3"
        by (auto simp: glcMakeShaderProgram_def)
      from compile_vertex_returns [OF v [unfolded Inl]] obtain cs
        where "trace w3 = trace w2 @ cs" "list_all (\<lambda>c. \<not> assigns_program c) cs" by blast
      with res t2 show ?thesis by (simp add: new_calls_def no_assign_list_ex)
    next
      case (Inr hv)
      obtain vertexShader w3 where hv: "hv = (vertexShader, w3)" by (cases hv)
      from compile_vertex_continues [OF v [unfolded Inr hv]] obtain cv
        where cv: "trace w3 = trace w2 @ cv" "list_all quiet cv" by blast
      from run o1 o2 v Inr hv obtain f
        where f: "compile_fragment env (next_id w) (next_id w1) w3 = Some f"
        by (auto simp: glcMakeShaderProgram_def split: option.splits)
      show ?thesis
      proof (cases f)
        case (Inl w4)
        with run o1 o2 v Inr hv f have res: "r = - 1" "program' = program" "w' = w4"
          by (auto simp: glcMakeShaderProgram_def)
        from compile_fragment_returns [OF f [unfolded Inl]] obtain cs
          where "trace w4 = trace w3 @ cs" "list_all (\<lambda>c. \<not> assigns_program c) cs" by blast
        with res t2 cv quiet_no_assign' [OF cv(2)] show ?thesis
          by (simp add: new_calls_def no_assign_list_ex)
      next
        case (Inr hf)
        obtain fragmentShader w4 where hf: "hf = (fragmentShader, w4)" by (cases hf)
        from compile_fragment_continues [OF f [unfolded Inr hf]] obtain cf
          where cf: "trace w4 = trace w3 @ cf" "list_all quiet cf" by blast
        from run o1 o2 v \<open>v = Inr hv\<close> hv f Inr hf
        have l: "link_program env vertexShader fragmentShader w4 = Some (r, program', w')"
          by (simp add: glcMakeShaderProgram_def)
        from link_program_calls [OF l] obtain cl
          where cl: "trace w' = trace w4 @ GlCreateProgram program' # Assign_program program' # cl"
            "list_all quiet cl" by blast
        have "new_calls w w' =
            (?opens @ cv @ cf) @ [GlCreateProgram program', Assign_program program'] @ cl"
          using t2 cv cf cl by (simp add: new_calls_def)
        moreover have "list_all quiet (?opens @ cv @ cf)"
          using cv cf by simp
        ultimately show ?thesis using cl(2) by blast
      qed
    qed
  qed
qed

lemmas run_defs = make_defs libc_defs gl_defs scan_length.simps env0_def world0_def Let_def

lemma fopen_rb_calls: "fopen_rb env path w = (x, w1) \<Longrightarrow> trace w1 = trace w @ [Fopen path x]"
  by (auto simp: fopen_rb_def logcall_def Let_def split: option.splits)

lemma compile_vertex_handle:
  "compile_vertex env vertexFile fragmentFile w = Some (Inr (h, w')) \<Longrightarrow>
     h = create_shader env GL_VERTEX_SHADER"
  by (auto simp: compile_vertex_def glCreateShader_def Let_def
      split: option.splits if_splits prod.splits)

lemma compile_fragment_handle:
  "compile_fragment env vertexFile fragmentFile w = Some (Inr (h, w')) \<Longrightarrow>
     h = create_shader env GL_FRAGMENT_SHADER"
  by (auto simp: compile_fragment_def glCreateShader_def Let_def
      split: option.splits if_splits prod.splits)

lemma link_program_returns_1:
  assumes "link_program env vertexShader fragmentShader w = Some (1, p, w')"
  shows "p = create_program env \<and> p \<noteq> 0 \<and>
         map_option link_status (programs w' p) = Some True \<and>
         trace w' = trace w @
           [GlCreateProgram p, Assign_program p,
            GlAttachShader p vertexShader, GlAttachShader p fragmentShader,
            GlLinkProgram p, GlGetProgramiv_link_status p True,
            GlDeleteShader vertexShader, GlDeleteShader fragmentShader]"
  using assms
  by (auto simp: link_program_def glCreateProgram_def glAttachShader_def glLinkProgram_def
        glGetProgramiv_link_status_def glGetProgramInfoLog_def glDeleteShader_def fprintf_def
        logcall_def Let_def
      split: option.splits if_splits prod.splits)

lemma make_returns_1:
  assumes run: "glcMakeShaderProgram env program vertexShaderPath fragmentShaderPath w =
      Some (1, program', w')"
  shows "program' = create_program env \<and> program' \<noteq> 0 \<and>
         map_option link_status (programs w' program') = Some True \<and>
         (\<exists>calls. new_calls w w' = calls @
            [GlCreateProgram program', Assign_program program',
             GlAttachShader program' (create_shader env GL_VERTEX_SHADER),
             GlAttachShader program' (create_shader env GL_FRAGMENT_SHADER),
             GlLinkProgram program', GlGetProgramiv_link_status program' True,
             GlDeleteShader (create_shader env GL_VERTEX_SHADER),
             GlDeleteShader (create_shader env GL_FRAGMENT_SHADER)])"
proof -
  from run have "\<exists>f1 w1 f2 w2 vs w3 fs w4.
      fopen_rb env vertexShaderPath w = (Some f1, w1) \<and>
      fopen_rb env fragmentShaderPath w1 = (Some f2, w2) \<and>
      compile_vertex env f1 f2 w2 = Some (Inr (vs, w3)) \<and>
      compile_fragment env f1 f2 w3 = Some (Inr (fs, w4)) \<and>
      link_program env vs fs w4 = Some (1, program', w')"
    by (auto simp: glcMakeShaderProgram_def split: option.splits sum.splits prod.splits)
  then obtain f1 w1 f2 w2 vs w3 fs w4
    where o1: "fopen_rb env vertexShaderPath w = (Some f1, w1)"
      and o2: "fopen_rb env fragmentShaderPath w1 = (Some f2, w2)"
      and cv: "compile_vertex env f1 f2 w2 = Some (Inr (vs, w3))"
      and cf: "compile_fragment env f1 f2 w3 = Some (Inr (fs, w4))"
      and lp: "link_program env vs fs w4 = Some (1, program', w')"
    by blast
  from compile_vertex_continues [OF cv] compile_fragment_continues [OF cf]
    fopen_rb_calls [OF o1] fopen_rb_calls [OF o2]
  obtain cs where cs: "trace w4 = trace w @ cs" by auto
  from link_program_returns_1 [OF lp] cs
    compile_vertex_handle [OF cv] compile_fragment_handle [OF cf]
  show ?thesis by (auto simp: new_calls_def)
qed

subsection \<open>glcMakeShaderProgram: what a failing run leaves behind\<close>

text \<open>
  C1 asks that every failing run of glcMakeShaderProgram releases, before it returns, each
  file handle, source buffer and compiled shader unit it has created, and in particular that
  the two compiled units are destroyed when the program object cannot be created or does
  not link. The early returns of the code call \<open>fclose\<close> and \<open>free\<close>, but
  \<open>glDeleteShader\<close> is called on the successful path only. Here both files compile; in the
  first run the driver returns 0 from \<open>glCreateProgram\<close>, in the second the link status
  is false. Each run returns -1, its trace holds no \<open>glDeleteShader\<close>, and the delete
  status of both shader objects is still false.
\<close>

theorem shader_units_not_deleted_on_failure:
  "(case glcMakeShaderProgram (env0\<lparr>create_program := 0\<rparr>) 7 ''v.glsl'' ''f.glsl'' world0 of
      None \<Rightarrow> False
    | Some (r, program', w') \<Rightarrow>
        r = - 1 \<and>
        trace w' =
          [Fopen ''v.glsl'' (Some 0), Fopen ''f.glsl'' (Some 1),
           Fgetc 0 (Some 118), Fgetc 0 (Some 59), Fgetc 0 None, Fseek_set 0 0,
           Calloc 4 1 (Some 2), Fread 2 1 3 0 [118, 59],
           GlCreateShader GL_VERTEX_SHADER 1, GlShaderSource 1 [118, 59, 0, 0],
           GlCompileShader 1, GlGetShaderiv_compile_status 1 True, Free 2,
           Fgetc 1 (Some 102), Fgetc 1 None, Fseek_set 1 0,
           Calloc 3 1 (Some 3), Fread 3 1 2 1 [102],
           GlCreateShader GL_FRAGMENT_SHADER 2, GlShaderSource 2 [102, 0, 0],
           GlCompileShader 2, GlGetShaderiv_compile_status 2 True,
           Fclose 0, Fclose 1, Free 3,
           GlCreateProgram 0, Assign_program 0,
           Fprintf ''Error creating shader program object.\<newline>'' []] \<and>
        map_option delete_status (shaders w' 1) = Some False \<and>
        map_option delete_status (shaders w' 2) = Some False) \<and>
   (case glcMakeShaderProgram (env0\<lparr>links := \<lambda>units. False\<rparr>) 7 ''v.glsl'' ''f.glsl'' world0 of
      None \<Rightarrow> False
    | Some (r, program', w') \<Rightarrow>
        r = - 1 \<and>
        trace w' =
          [Fopen ''v.glsl'' (Some 0), Fopen ''f.glsl'' (Some 1),
           Fgetc 0 (Some 118), Fgetc 0 (Some 59), Fgetc 0 None, Fseek_set 0 0,
           Calloc 4 1 (Some 2), Fread 2 1 3 0 [118, 59],
           GlCreateShader GL_VERTEX_SHADER 1, GlShaderSource 1 [118, 59, 0, 0],
           GlCompileShader 1, GlGetShaderiv_compile_status 1 True, Free 2,
           Fgetc 1 (Some 102), Fgetc 1 None, Fseek_set 1 0,
           Calloc 3 1 (Some 3), Fread 3 1 2 1 [102],
           GlCreateShader GL_FRAGMENT_SHADER 2, GlShaderSource 2 [102, 0, 0],
           GlCompileShader 2, GlGetShaderiv_compile_status 2 True,
           Fclose 0, Fclose 1, Free 3,
           GlCreateProgram 3, Assign_program 3,
           GlAttachShader 3 1, GlAttachShader 3 2, GlLinkProgram 3,
           GlGetProgramiv_link_status 3 False, GlGetProgramInfoLog 3 512 ''link error'',
           Fprintf ''Shader program linking error!\<newline>%s\<newline>'' [Str ''link error'']] \<and>
        map_option delete_status (shaders w' 1) = Some False \<and>
        map_option delete_status (shaders w' 2) = Some False)"
  by (simp add: run_defs)

subsection \<open>glcMakeShaderProgram: the successful run\<close>

text \<open>
  C2. When both files open, both shader objects are created and compile, and the program
  object is created and links, glcMakeShaderProgram returns 1 and \<open>*program\<close> holds the
  handle \<open>glCreateProgram\<close> returned, which is not 0. The theorem gives the whole run:
  each file is read and closed, each source is handed to its shader object, compiled and
  its buffer freed, the program object has both units attached and its link status is
  true, and the last two calls are \<open>glDeleteShader\<close> on the vertex and on the fragment
  unit, whose delete status is set at exit. The run is defined when each file with its two
  extra bytes fits an \<open>int\<close> and both allocations succeed; the driver gives the two
  live shader objects different names. Conversely, in every run that returns 1 the value
  of \<open>*program\<close> is the result of \<open>glCreateProgram\<close>, it is not 0, the object it
  names has a true link status, and the run ends with the attach, link, status and delete
  calls in this order.
\<close>

theorem build_succeeds:
  fixes env :: env and w :: world
    and vertexShaderPath fragmentShaderPath :: string and vbytes fbytes :: "byte list"
  defines "vertexShader \<equiv> create_shader env GL_VERTEX_SHADER"
    and "fragmentShader \<equiv> create_shader env GL_FRAGMENT_SHADER"
    and "p \<equiv> create_program env"
    and "vertexFile \<equiv> next_id w"
    and "fragmentFile \<equiv> Suc (next_id w)"
    and "vsource \<equiv> Suc (Suc (next_id w))"
    and "fsource \<equiv> Suc (Suc (Suc (next_id w)))"
  shows "(file_system env vertexShaderPath = Some vbytes \<and>
          file_system env fragmentShaderPath = Some fbytes \<and>
          length vbytes + 2 \<le> INT_MAX \<and> length fbytes + 2 \<le> INT_MAX \<and>
          alloc_ok env (length vbytes + 2) \<and> alloc_ok env (length fbytes + 2) \<and>
          vertexShader \<noteq> 0 \<and> fragmentShader \<noteq> 0 \<and> vertexShader \<noteq> fragmentShader \<and>
          compiles env GL_VERTEX_SHADER (c_string vbytes) \<and>
          compiles env GL_FRAGMENT_SHADER (c_string fbytes) \<and>
          p \<noteq> 0 \<and>
          links env [(GL_VERTEX_SHADER, c_string vbytes), (GL_FRAGMENT_SHADER, c_string fbytes)]
          \<longrightarrow>
          glcMakeShaderProgram env program vertexShaderPath fragmentShaderPath w =
            Some (1, p,
              w\<lparr>streams := (streams w)(vertexFile := None, fragmentFile := None),
                heap := (heap w)(vsource := None, fsource := None),
                next_id := Suc (Suc (Suc (Suc (next_id w)))),
                shaders := (shaders w)
                  (vertexShader \<mapsto>
                     \<lparr>shader_stage = GL_VERTEX_SHADER, shader_source = c_string vbytes,
                      compile_status = True, delete_status = True\<rparr>,
                   fragmentShader \<mapsto>
                     \<lparr>shader_stage = GL_FRAGMENT_SHADER, shader_source = c_string fbytes,
                      compile_status = True, delete_status = True\<rparr>),
                programs := (programs w)
                  (p \<mapsto> \<lparr>attached = [vertexShader, fragmentShader], link_status = True\<rparr>),
                trace := trace w @
                  [Fopen vertexShaderPath (Some vertexFile),
                   Fopen fragmentShaderPath (Some fragmentFile)] @
                  map (\<lambda>b. Fgetc vertexFile (Some b)) vbytes @
                  [Fgetc vertexFile None, Fseek_set vertexFile 0,
                   Calloc (length vbytes + 2) 1 (Some vsource),
                   Fread vsource 1 (length vbytes + 1) vertexFile vbytes,
                   GlCreateShader GL_VERTEX_SHADER vertexShader,
                   GlShaderSource vertexShader (vbytes @ [0, 0]),
                   GlCompileShader vertexShader,
                   GlGetShaderiv_compile_status vertexShader True,
                   Free vsource] @
                  map (\<lambda>b. Fgetc fragmentFile (Some b)) fbytes @
                  [Fgetc fragmentFile None, Fseek_set fragmentFile 0,
                   Calloc (length fbytes + 2) 1 (Some fsource),
                   Fread fsource 1 (length fbytes + 1) fragmentFile fbytes,
                   GlCreateShader GL_FRAGMENT_SHADER fragmentShader,
                   GlShaderSource fragmentShader (fbytes @ [0, 0]),
                   GlCompileShader fragmentShader,
                   GlGetShaderiv_compile_status fragmentShader True,
                   Fclose vertexFile, Fclose fragmentFile, Free fsource,
                   GlCreateProgram p, Assign_program p,
                   GlAttachShader p vertexShader, GlAttachShader p fragmentShader,
                   GlLinkProgram p, GlGetProgramiv_link_status p True,
                   GlDeleteShader vertexShader, GlDeleteShader fragmentShader]\<rparr>)) \<and>
         (glcMakeShaderProgram env program vertexShaderPath fragmentShaderPath w =
            Some (1, program', w') \<longrightarrow>
          program' = p \<and> program' \<noteq> 0 \<and>
          map_option link_status (programs w' program') = Some True \<and>
          (\<exists>calls. new_calls w w' = calls @
             [GlCreateProgram program', Assign_program program',
              GlAttachShader program' vertexShader, GlAttachShader program' fragmentShader,
              GlLinkProgram program', GlGetProgramiv_link_status program' True,
              GlDeleteShader vertexShader, GlDeleteShader fragmentShader]))"
proof (intro conjI impI)
  assume "glcMakeShaderProgram env program vertexShaderPath fragmentShaderPath w =
      Some (1, program', w')"
  from make_returns_1 [OF this]
  show "program' = p" "program' \<noteq> 0"
    "map_option link_status (programs w' program') = Some True"
    "\<exists>calls. new_calls w w' = calls @
       [GlCreateProgram program', Assign_program program',
        GlAttachShader program' vertexShader, GlAttachShader program' fragmentShader,
        GlLinkProgram program', GlGetProgramiv_link_status program' True,
        GlDeleteShader vertexShader, GlDeleteShader fragmentShader]"
    unfolding p_def vertexShader_def fragmentShader_def by blast+
next
  assume h: "file_system env vertexShaderPath = Some vbytes \<and>
          file_system env fragmentShaderPath = Some fbytes \<and>
          length vbytes + 2 \<le> INT_MAX \<and> length fbytes + 2 \<le> INT_MAX \<and>
          alloc_ok env (length vbytes + 2) \<and> alloc_ok env (length fbytes + 2) \<and>
          vertexShader \<noteq> 0 \<and> fragmentShader \<noteq> 0 \<and> vertexShader \<noteq> fragmentShader \<and>
          compiles env GL_VERTEX_SHADER (c_string vbytes) \<and>
          compiles env GL_FRAGMENT_SHADER (c_string fbytes) \<and>
          p \<noteq> 0 \<and>
          links env [(GL_VERTEX_SHADER, c_string vbytes), (GL_FRAGMENT_SHADER, c_string fbytes)]"
  then have files: "file_system env vertexShaderPath = Some vbytes"
      "file_system env fragmentShaderPath = Some fbytes"
    and sizes: "length vbytes + 2 \<le> INT_MAX" "length fbytes + 2 \<le> INT_MAX"
    and memory: "alloc_ok env (length vbytes + 2)" "alloc_ok env (length fbytes + 2)"
    and units: "create_shader env GL_VERTEX_SHADER \<noteq> 0"
      "create_shader env GL_FRAGMENT_SHADER \<noteq> 0" "vertexShader \<noteq> fragmentShader"
    and compile: "compiles env GL_VERTEX_SHADER (c_string vbytes)"
      "compiles env GL_FRAGMENT_SHADER (c_string fbytes)"
    and link: "create_program env \<noteq> 0"
      "links env [(GL_VERTEX_SHADER, c_string vbytes), (GL_FRAGMENT_SHADER, c_string fbytes)]"
    by (simp_all add: vertexShader_def fragmentShader_def p_def)
  define w2 where "w2 = w\<lparr>streams := (streams w)
                             (vertexFile \<mapsto> \<lparr>contents = vbytes, pos = 0\<rparr>,
                              fragmentFile \<mapsto> \<lparr>contents = fbytes, pos = 0\<rparr>),
                           next_id := Suc (Suc (next_id w)),
                           trace := trace w @ [Fopen vertexShaderPath (Some vertexFile),
                                               Fopen fragmentShaderPath (Some fragmentFile)]\<rparr>"
  have sv: "streams w2 vertexFile = Some \<lparr>contents = vbytes, pos = 0\<rparr>"
    by (simp add: w2_def vertexFile_def fragmentFile_def)
  obtain w3 where w3: "compile_vertex env vertexFile fragmentFile w2 =
      Some (Inr (vertexShader, w3))"
    and w3_def: "w3 = w2\<lparr>streams := (streams w2)
                        (vertexFile \<mapsto> \<lparr>contents = vbytes, pos = length vbytes\<rparr>),
               heap := (heap w2)(next_id w2 := None),
               next_id := Suc (next_id w2),
               shaders := (shaders w2)(create_shader env GL_VERTEX_SHADER \<mapsto>
                 \<lparr>shader_stage = GL_VERTEX_SHADER, shader_source = c_string vbytes,
                  compile_status = True, delete_status = False\<rparr>),
               trace := trace w2 @ map (\<lambda>b. Fgetc vertexFile (Some b)) vbytes
                 @ [Fgetc vertexFile None, Fseek_set vertexFile 0,
                    Calloc (length vbytes + 2) 1 (Some (next_id w2)),
                    Fread (next_id w2) 1 (length vbytes + 1) vertexFile vbytes,
                    GlCreateShader GL_VERTEX_SHADER (create_shader env GL_VERTEX_SHADER),
                    GlShaderSource (create_shader env GL_VERTEX_SHADER) (vbytes @ [0, 0]),
                    GlCompileShader (create_shader env GL_VERTEX_SHADER),
                    GlGetShaderiv_compile_status (create_shader env GL_VERTEX_SHADER) True,
                    Free (next_id w2)]\<rparr>"
    using compile_vertex_ok [OF sv sizes(1) memory(1) units(1) compile(1), of fragmentFile]
    by (simp add: vertexShader_def)
  have sf: "streams w3 fragmentFile = Some \<lparr>contents = fbytes, pos = 0\<rparr>"
    by (simp add: w3_def w2_def vertexFile_def fragmentFile_def)
  obtain w4 where w4: "compile_fragment env vertexFile fragmentFile w3 =
      Some (Inr (fragmentShader, w4))"
    and w4_def: "w4 = w3\<lparr>streams := (streams w3)(vertexFile := None, fragmentFile := None),
               heap := (heap w3)(next_id w3 := None),
               next_id := Suc (next_id w3),
               shaders := (shaders w3)(create_shader env GL_FRAGMENT_SHADER \<mapsto>
                 \<lparr>shader_stage = GL_FRAGMENT_SHADER, shader_source = c_string fbytes,
                  compile_status = True, delete_status = False\<rparr>),
               trace := trace w3 @ map (\<lambda>b. Fgetc fragmentFile (Some b)) fbytes
                 @ [Fgetc fragmentFile None, Fseek_set fragmentFile 0,
                    Calloc (length fbytes + 2) 1 (Some (next_id w3)),
                    Fread (next_id w3) 1 (length fbytes + 1) fragmentFile fbytes,
                    GlCreateShader GL_FRAGMENT_SHADER (create_shader env GL_FRAGMENT_SHADER),
                    GlShaderSource (create_shader env GL_FRAGMENT_SHADER) (fbytes @ [0, 0]),
                    GlCompileShader (create_shader env GL_FRAGMENT_SHADER),
                    GlGetShaderiv_compile_status (create_shader env GL_FRAGMENT_SHADER) True,
                    Fclose vertexFile, Fclose fragmentFile, Free (next_id w3)]\<rparr>"
    using compile_fragment_ok [OF sf sizes(2) memory(2) units(2) compile(2), of vertexFile]
    by (simp add: fragmentShader_def)
  have shv: "shaders w4 vertexShader = Some \<lparr>shader_stage = GL_VERTEX_SHADER,
        shader_source = c_string vbytes, compile_status = True, delete_status = False\<rparr>"
    and shf: "shaders w4 fragmentShader = Some \<lparr>shader_stage = GL_FRAGMENT_SHADER,
        shader_source = c_string fbytes, compile_status = True, delete_status = False\<rparr>"
    using units(3) by (simp_all add: w4_def w3_def w2_def vertexShader_def fragmentShader_def)
  have lp: "link_program env vertexShader fragmentShader w4 =
      Some (1, p,
        w4\<lparr>shaders := (shaders w4)
               (vertexShader \<mapsto> \<lparr>shader_stage = GL_VERTEX_SHADER,
                  shader_source = c_string vbytes, compile_status = True, delete_status = True\<rparr>,
                fragmentShader \<mapsto> \<lparr>shader_stage = GL_FRAGMENT_SHADER,
                  shader_source = c_string fbytes, compile_status = True, delete_status = True\<rparr>),
            programs := (programs w4)(p \<mapsto>
              \<lparr>attached = [vertexShader, fragmentShader], link_status = True\<rparr>),
            trace := trace w4 @
              [GlCreateProgram p, Assign_program p,
               GlAttachShader p vertexShader, GlAttachShader p fragmentShader,
               GlLinkProgram p, GlGetProgramiv_link_status p True,
               GlDeleteShader vertexShader, GlDeleteShader fragmentShader]\<rparr>)"
    using link_program_ok [OF shv shf units(3) link(1)] link(2) by (simp add: p_def)
  have run: "glcMakeShaderProgram env program vertexShaderPath fragmentShaderPath w =
      link_program env vertexShader fragmentShader w4"
    using files w3 w4
    by (simp add: glcMakeShaderProgram_def fopen_rb_def logcall_def Let_def w2_def
          vertexFile_def fragmentFile_def)
  show "glcMakeShaderProgram env program vertexShaderPath fragmentShaderPath w =
            Some (1, p,
              w\<lparr>streams := (streams w)(vertexFile := None, fragmentFile := None),
                heap := (heap w)(vsource := None, fsource := None),
                next_id := Suc (Suc (Suc (Suc (next_id w)))),
                shaders := (shaders w)
                  (vertexShader \<mapsto>
                     \<lparr>shader_stage = GL_VERTEX_SHADER, shader_source = c_string vbytes,
                      compile_status = True, delete_status = True\<rparr>,
                   fragmentShader \<mapsto>
                     \<lparr>shader_stage = GL_FRAGMENT_SHADER, shader_source = c_string fbytes,
                      compile_status = True, delete_status = True\<rparr>),
                programs := (programs w)
                  (p \<mapsto> \<lparr>attached = [vertexShader, fragmentShader], link_status = True\<rparr>),
                trace := trace w @
                  [Fopen vertexShaderPath (Some vertexFile),
                   Fopen fragmentShaderPath (Some fragmentFile)] @
                  map (\<lambda>b. Fgetc vertexFile (Some b)) vbytes @
                  [Fgetc vertexFile None, Fseek_set vertexFile 0,
                   Calloc (length vbytes + 2) 1 (Some vsource),
                   Fread vsource 1 (length vbytes + 1) vertexFile vbytes,
                   GlCreateShader GL_VERTEX_SHADER vertexShader,
                   GlShaderSource vertexShader (vbytes @ [0, 0]),
                   GlCompileShader vertexShader,
                   GlGetShaderiv_compile_status vertexShader True,
                   Free vsource] @
                  map (\<lambda>b. Fgetc fragmentFile (Some b)) fbytes @
                  [Fgetc fragmentFile None, Fseek_set fragmentFile 0,
                   Calloc (length fbytes + 2) 1 (Some fsource),
                   Fread fsource 1 (length fbytes + 1) fragmentFile fbytes,
                   GlCreateShader GL_FRAGMENT_SHADER fragmentShader,
                   GlShaderSource fragmentShader (fbytes @ [0, 0]),
                   GlCompileShader fragmentShader,
                   GlGetShaderiv_compile_status fragmentShader True,
                   Fclose vertexFile, Fclose fragmentFile, Free fsource,
                   GlCreateProgram p, Assign_program p,
                   GlAttachShader p vertexShader, GlAttachShader p fragmentShader,
                   GlLinkProgram p, GlGetProgramiv_link_status p True,
                   GlDeleteShader vertexShader, GlDeleteShader fragmentShader]\<rparr>)"
    unfolding run lp
    by (simp add: w4_def w3_def w2_def vertexFile_def fragmentFile_def vsource_def
          fsource_def vertexShader_def fragmentShader_def)
qed

theorem build_succeeds_witness:
  "file_system env0 ''v.glsl'' = Some [118, 59] \<and>
   file_system env0 ''f.glsl'' = Some [102] \<and>
   length [118 :: byte, 59] + 2 \<le> INT_MAX \<and> length [102 :: byte] + 2 \<le> INT_MAX \<and>
   alloc_ok env0 (length [118 :: byte, 59] + 2) \<and> alloc_ok env0 (length [102 :: byte] + 2) \<and>
   create_shader env0 GL_VERTEX_SHADER \<noteq> 0 \<and> create_shader env0 GL_FRAGMENT_SHADER \<noteq> 0 \<and>
   create_shader env0 GL_VERTEX_SHADER \<noteq> create_shader env0 GL_FRAGMENT_SHADER \<and>
   compiles env0 GL_VERTEX_SHADER (c_string [118, 59]) \<and>
   compiles env0 GL_FRAGMENT_SHADER (c_string [102]) \<and>
   create_program env0 \<noteq> 0 \<and>
   links env0 [(GL_VERTEX_SHADER, c_string [118, 59]), (GL_FRAGMENT_SHADER, c_string [102])] \<and>
   glcMakeShaderProgram env0 7 ''v.glsl'' ''f.glsl'' world0 =
     Some (1, 3,
       world0\<lparr>next_id := 4,
         shaders :=
           [1 \<mapsto> \<lparr>shader_stage = GL_VERTEX_SHADER, shader_source = [118, 59],
                  compile_status = True, delete_status = True\<rparr>,
            2 \<mapsto> \<lparr>shader_stage = GL_FRAGMENT_SHADER, shader_source = [102],
                  compile_status = True, delete_status = True\<rparr>],
         programs := [3 \<mapsto> \<lparr>attached = [1, 2], link_status = True\<rparr>],
         trace :=
           [Fopen ''v.glsl'' (Some 0), Fopen ''f.glsl'' (Some 1),
            Fgetc 0 (Some 118), Fgetc 0 (Some 59), Fgetc 0 None, Fseek_set 0 0,
            Calloc 4 1 (Some 2), Fread 2 1 3 0 [118, 59],
            GlCreateShader GL_VERTEX_SHADER 1, GlShaderSource 1 [118, 59, 0, 0],
            GlCompileShader 1, GlGetShaderiv_compile_status 1 True, Free 2,
            Fgetc 1 (Some 102), Fgetc 1 None, Fseek_set 1 0,
            Calloc 3 1 (Some 3), Fread 3 1 2 1 [102],
            GlCreateShader GL_FRAGMENT_SHADER 2, GlShaderSource 2 [102, 0, 0],
            GlCompileShader 2, GlGetShaderiv_compile_status 2 True,
            Fclose 0, Fclose 1, Free 3,
            GlCreateProgram 3, Assign_program 3,
            GlAttachShader 3 1, GlAttachShader 3 2, GlLinkProgram 3,
            GlGetProgramiv_link_status 3 True,
            GlDeleteShader 1, GlDeleteShader 2]\<rparr>) \<and>
   (3 :: GLuint) = create_program env0 \<and> (3 :: GLuint) \<noteq> 0"
  using build_succeeds [where env = env0 and vertexShaderPath = "''v.glsl''"
      and fragmentShaderPath = "''f.glsl''" and vbytes = "[118, 59]" and fbytes = "[102]"
      and program = 7 and w = world0 and program' = 3 and w' = "world0\<lparr>next_id := 4,
         shaders :=
           [1 \<mapsto> \<lparr>shader_stage = GL_VERTEX_SHADER, shader_source = [118, 59],
                  compile_status = True, delete_status = True\<rparr>,
            2 \<mapsto> \<lparr>shader_stage = GL_FRAGMENT_SHADER, shader_source = [102],
                  compile_status = True, delete_status = True\<rparr>],
         programs := [3 \<mapsto> \<lparr>attached = [1, 2], link_status = True\<rparr>],
         trace :=
           [Fopen ''v.glsl'' (Some 0), Fopen ''f.glsl'' (Some 1),
            Fgetc 0 (Some 118), Fgetc 0 (Some 59), Fgetc 0 None, Fseek_set 0 0,
            Calloc 4 1 (Some 2), Fread 2 1 3 0 [118, 59],
            GlCreateShader GL_VERTEX_SHADER 1, GlShaderSource 1 [118, 59, 0, 0],
            GlCompileShader 1, GlGetShaderiv_compile_status 1 True, Free 2,
            Fgetc 1 (Some 102), Fgetc 1 None, Fseek_set 1 0,
            Calloc 3 1 (Some 3), Fread 3 1 2 1 [102],
            GlCreateShader GL_FRAGMENT_SHADER 2, GlShaderSource 2 [102, 0, 0],
            GlCompileShader 2, GlGetShaderiv_compile_status 2 True,
            Fclose 0, Fclose 1, Free 3,
            GlCreateProgram 3, Assign_program 3,
            GlAttachShader 3 1, GlAttachShader 3 2, GlLinkProgram 3,
            GlGetProgramiv_link_status 3 True,
            GlDeleteShader 1, GlDeleteShader 2]\<rparr>"]
  by (simp add: env0_def world0_def INT_MAX_def c_string_def)

subsection \<open>The uniform setters: dispatch\<close>

text \<open>
  C3. In glcSetUniformxv and glcSetUniformx, for a dimension \<open>d\<close> in 1..4 (and a name
  that resolves), the tag GL_FLOAT uploads through \<open>glUniform<d>fv\<close>, GL_INT through
  \<open>glUniform<d>iv\<close> and GL_UNSIGNED_INT through \<open>glUniform<d>uiv\<close>; the twelve
  entry points are pairwise different; and with any other tag the call does exactly what
  it does with GL_UNSIGNED_INT. glcSetUniformxv passes the caller's array and \<open>amount\<close>;
  glcSetUniformx passes the \<open>d\<close> variadic values, converted, with a count of 1, from a
  block it allocates and frees. The three tags of the OpenGL headers are different values.
\<close>

theorem uniform_dispatch:
  fixes env :: env and program :: GLuint and name :: string
    and dimension amount ty :: c_int and uniform :: "32 word list" and w :: world
  defines "location \<equiv> uniform_location env program name"
    and "d \<equiv> nat (sint dimension)"
  defines "uploaded_v \<equiv> \<lambda>fn.
      (1 :: c_int,
       w\<lparr>current_program := program,
         trace := trace w @
           [GlGetUniformLocation program name location, GlUseProgram program,
            GlUniform fn location amount uniform]\<rparr>)"
    and "uploaded_x \<equiv> \<lambda>fn elems.
      Some (1 :: c_int,
        w\<lparr>heap := (heap w)(next_id w := None),
          next_id := Suc (next_id w),
          current_program := program,
          trace := trace w @
            [GlGetUniformLocation program name location, GlUseProgram program,
             Malloc (4 * d) (Some (next_id w)),
             GlUniform fn location 1 elems,
             Free (next_id w)]\<rparr>)"
  assumes tags: "distinct [GL_FLOAT env, GL_INT env, GL_UNSIGNED_INT env]"
    and dim: "1 \<le> sint dimension" "sint dimension \<le> 4"
    and loc: "location \<noteq> - 1"
    and other: "ty \<notin> {GL_FLOAT env, GL_INT env, GL_UNSIGNED_INT env}"
  shows "(0 < sint amount \<longrightarrow>
            glcSetUniformxv env program name (GL_FLOAT env) dimension amount uniform w =
              uploaded_v (upload_fn ComponentFloat d) \<and>
            glcSetUniformxv env program name (GL_INT env) dimension amount uniform w =
              uploaded_v (upload_fn ComponentInt d) \<and>
            glcSetUniformxv env program name (GL_UNSIGNED_INT env) dimension amount uniform w =
              uploaded_v (upload_fn ComponentUInt d)) \<and>
         glcSetUniformxv env program name ty dimension amount uniform w =
           glcSetUniformxv env program name (GL_UNSIGNED_INT env) dimension amount uniform w \<and>
         (alloc_ok env (4 * d) \<and> length ds = d \<and> length xs = d \<longrightarrow>
            glcSetUniformx env program name (GL_FLOAT env) dimension (map ArgDouble ds) w =
              uploaded_x (upload_fn ComponentFloat d) (map (narrow env) ds) \<and>
            glcSetUniformx env program name (GL_INT env) dimension (map ArgInt xs) w =
              uploaded_x (upload_fn ComponentInt d) xs \<and>
            glcSetUniformx env program name (GL_UNSIGNED_INT env) dimension (map ArgUInt xs) w =
              uploaded_x (upload_fn ComponentUInt d) xs) \<and>
         glcSetUniformx env program name ty dimension vl w =
           glcSetUniformx env program name (GL_UNSIGNED_INT env) dimension vl w \<and>
         inj_on (\<lambda>(c, n). upload_fn c n) (UNIV \<times> {1, 2, 3, 4})"
proof -
  from tags other have ne:
    "GL_INT env \<noteq> GL_FLOAT env" "GL_UNSIGNED_INT env \<noteq> GL_FLOAT env"
    "GL_UNSIGNED_INT env \<noteq> GL_INT env" "ty \<noteq> GL_FLOAT env" "ty \<noteq> GL_INT env"
    by auto
  have loc': "uniform_location env program name \<noteq> - 1"
    using loc by (simp add: location_def)
  have v: "0 < sint amount \<Longrightarrow>
      glcSetUniformxv env program name t dimension amount uniform w =
        uploaded_v (upload_fn (if t = GL_FLOAT env then ComponentFloat
                               else if t = GL_INT env then ComponentInt
                               else ComponentUInt) d)" for t
    unfolding uploaded_v_def location_def d_def by (rule xv_dispatch [OF dim loc'])
  have x: "alloc_ok env (4 * d) \<Longrightarrow> fill_data env t 0 d l [] = Some elems \<Longrightarrow>
      glcSetUniformx env program name t dimension l w =
        uploaded_x (upload_fn (if t = GL_FLOAT env then ComponentFloat
                               else if t = GL_INT env then ComponentInt
                               else ComponentUInt) d) elems" for t l elems
    unfolding uploaded_x_def location_def d_def by (rule x_dispatch [OF dim loc'])
  have f: "length ds = d \<Longrightarrow>
      fill_data env (GL_FLOAT env) 0 d (map ArgDouble ds) [] = Some (map (narrow env) ds)"
    using fill_data_float [of "GL_FLOAT env" env 0 ds d "[]" "[]"] by simp
  have i: "length xs = d \<Longrightarrow> fill_data env (GL_INT env) 0 d (map ArgInt xs) [] = Some xs"
    using fill_data_int [of "GL_INT env" env 0 xs d "[]" "[]"] ne by simp
  have u: "length xs = d \<Longrightarrow>
      fill_data env (GL_UNSIGNED_INT env) 0 d (map ArgUInt xs) [] = Some xs"
    using fill_data_uint [of "GL_UNSIGNED_INT env" env 0 xs d "[]" "[]"] ne by simp
  have fb: "fill_data env ty 0 d vl [] = fill_data env (GL_UNSIGNED_INT env) 0 d vl []"
    using ne by (intro fill_data_fallback) simp_all
  have v_other: "glcSetUniformxv env program name ty dimension amount uniform w =
      glcSetUniformxv env program name (GL_UNSIGNED_INT env) dimension amount uniform w"
    using ne by (simp add: glcSetUniformxv_def Let_def split: prod.splits cong: if_cong)
  have x_other: "glcSetUniformx env program name ty dimension vl w =
      glcSetUniformx env program name (GL_UNSIGNED_INT env) dimension vl w"
    using ne fb
    by (simp add: glcSetUniformx_def d_def Let_def split: prod.splits option.splits cong: if_cong)
  show ?thesis
    using v [of "GL_FLOAT env"] v [of "GL_INT env"] v [of "GL_UNSIGNED_INT env"]
      x [OF _ f] x [OF _ i] x [OF _ u] v_other x_other upload_fn_inj ne
    by simp
qed


theorem uniform_dispatch_witness:
  "distinct [GL_FLOAT env0, GL_INT env0, GL_UNSIGNED_INT env0] \<and>
   1 \<le> sint (3 :: c_int) \<and> sint (3 :: c_int) \<le> 4 \<and>
   uniform_location env0 9 ''color'' \<noteq> - 1 \<and>
   (77 :: c_int) \<notin> {GL_FLOAT env0, GL_INT env0, GL_UNSIGNED_INT env0} \<and>
   0 < sint (2 :: c_int) \<and>
   alloc_ok env0 (4 * nat (sint (3 :: c_int))) \<and>
   glcSetUniformxv env0 9 ''color'' (GL_INT env0) 3 2 [1, 2, 3, 4, 5, 6] world0 =
     (1, world0\<lparr>current_program := 9,
          trace := [GlGetUniformLocation 9 ''color'' 0, GlUseProgram 9,
                    GlUniform glUniform3iv 0 2 [1, 2, 3, 4, 5, 6]]\<rparr>) \<and>
   glcSetUniformxv env0 9 ''color'' 77 3 2 [1, 2, 3, 4, 5, 6] world0 =
     (1, world0\<lparr>current_program := 9,
          trace := [GlGetUniformLocation 9 ''color'' 0, GlUseProgram 9,
                    GlUniform glUniform3uiv 0 2 [1, 2, 3, 4, 5, 6]]\<rparr>) \<and>
   glcSetUniformx env0 9 ''color'' (GL_FLOAT env0) 3
     (map ArgDouble [0x3FF0000000000000, 0x4000000000000000, 0x4008000000000000]) world0 =
     Some (1, world0\<lparr>next_id := 1, current_program := 9,
          trace := [GlGetUniformLocation 9 ''color'' 0, GlUseProgram 9,
                    Malloc 12 (Some 0),
                    GlUniform glUniform3fv 0 1 [0x3F800000, 0x40000000, 0x40400000],
                    Free 0]\<rparr>)"
  using uniform_dispatch [where env = env0 and program = 9 and name = "''color''"
      and dimension = 3 and amount = 2 and ty = 77 and uniform = "[1, 2, 3, 4, 5, 6]"
      and w = world0 and ds = "[0x3FF0000000000000, 0x4000000000000000, 0x4008000000000000]"
      and xs = "[7, 8, 9]" and vl = "[]"]
  by (simp add: env0_def world0_def upload_fn_values double_to_float_def Let_def)

subsection \<open>glcMakeShaderProgram: the source buffer\<close>

text \<open>
  C4 says that for a file of N bytes the buffer is sized to N plus a terminator. The
  counting loop \<open>do { length++; } while(fgetc(file) != EOF);\<close> increments once more
  for the call that returns EOF, so \<open>length\<close> is N + 1, \<open>calloc\<close> is asked for
  N + 2 bytes and \<open>fread\<close> for N + 1 (lemma \<open>read_source_run\<close>, for every N). The
  rest of the claim holds: the file is counted by reading it to EOF and rewound, all its
  bytes are read, and the buffer handed to \<open>glShaderSource\<close> ends in zero bytes. The
  run below reads a vertex file of 2 bytes into a block of 4, and a fragment file of
  1 byte into a block of 3.
\<close>

theorem source_buffer_one_byte_longer:
  "file_system env0 ''v.glsl'' = Some [118, 59] \<and> file_system env0 ''f.glsl'' = Some [102] \<and>
   map_option (\<lambda>(r, program', w'). (r, program', trace w'))
     (glcMakeShaderProgram env0 7 ''v.glsl'' ''f.glsl'' world0) =
     Some (1, 3,
       [Fopen ''v.glsl'' (Some 0), Fopen ''f.glsl'' (Some 1),
        Fgetc 0 (Some 118), Fgetc 0 (Some 59), Fgetc 0 None, Fseek_set 0 0,
        Calloc 4 1 (Some 2), Fread 2 1 3 0 [118, 59],
        GlCreateShader GL_VERTEX_SHADER 1, GlShaderSource 1 [118, 59, 0, 0],
        GlCompileShader 1, GlGetShaderiv_compile_status 1 True, Free 2,
        Fgetc 1 (Some 102), Fgetc 1 None, Fseek_set 1 0,
        Calloc 3 1 (Some 3), Fread 3 1 2 1 [102],
        GlCreateShader GL_FRAGMENT_SHADER 2, GlShaderSource 2 [102, 0, 0],
        GlCompileShader 2, GlGetShaderiv_compile_status 2 True,
        Fclose 0, Fclose 1, Free 3,
        GlCreateProgram 3, Assign_program 3,
        GlAttachShader 3 1, GlAttachShader 3 2, GlLinkProgram 3,
        GlGetProgramiv_link_status 3 True,
        GlDeleteShader 1, GlDeleteShader 2])"
  by (simp add: run_defs)

subsection \<open>The uniform setters: validation\<close>

text \<open>
  C5. A vector setter (glcSetUniformx, glcSetUniformxv) called with a dimension outside
  1..4, and the matrix setter (glcSetUniformMatx) called with a dimension outside 2..4,
  returns -1 after printing the "Dimension invalid" diagnostic, and that \<open>fprintf\<close> is
  the only call it makes: no upload, no call of the driver at all.
\<close>

theorem invalid_dimension_rejected:
  "(sint dimension < 1 \<or> 4 < sint dimension \<longrightarrow>
      glcSetUniformx env program name ty dimension vl w =
        Some (- 1, w\<lparr>trace := trace w @
          [Fprintf ''Dimension invalid. Must be 1-4. Got %d.\<newline>'' [Dec dimension]]\<rparr>) \<and>
      glcSetUniformxv env program name ty dimension amount uniform w =
        (- 1, w\<lparr>trace := trace w @
          [Fprintf ''Dimension invalid. Must be 1-4. Got %d.\<newline>'' [Dec dimension]]\<rparr>)) \<and>
   (sint dimension < 2 \<or> 4 < sint dimension \<longrightarrow>
      glcSetUniformMatx env program name dimension amount transpose' uniform w =
        (- 1, w\<lparr>trace := trace w @
          [Fprintf ''Dimension invalid. Must be 2-4. Got %d.\<newline>'' [Dec dimension]]\<rparr>))"
  by (simp add: glcSetUniformx_def glcSetUniformxv_def glcSetUniformMatx_def signed_compare
        fprintf_def logcall_def)

theorem invalid_dimension_rejected_witness:
  "(sint (5 :: c_int) < 1 \<or> 4 < sint (5 :: c_int)) \<and>
   (sint (1 :: c_int) < 2 \<or> 4 < sint (1 :: c_int)) \<and>
   glcSetUniformx env0 3 ''color'' (GL_FLOAT env0) 5 [ArgDouble 1] world0 =
     Some (- 1, world0\<lparr>trace :=
       [Fprintf ''Dimension invalid. Must be 1-4. Got %d.\<newline>'' [Dec 5]]\<rparr>) \<and>
   glcSetUniformxv env0 3 ''color'' (GL_FLOAT env0) 5 1 [7] world0 =
     (- 1, world0\<lparr>trace :=
       [Fprintf ''Dimension invalid. Must be 1-4. Got %d.\<newline>'' [Dec 5]]\<rparr>) \<and>
   glcSetUniformMatx env0 3 ''color'' 1 1 0 [7] world0 =
     (- 1, world0\<lparr>trace :=
       [Fprintf ''Dimension invalid. Must be 2-4. Got %d.\<newline>'' [Dec 1]]\<rparr>)"
  using invalid_dimension_rejected [of 5 env0 3 "''color''" "GL_FLOAT env0" "[ArgDouble 1]" world0 1 "[7]" 0]
    invalid_dimension_rejected [of 1 env0 3 "''color''" "GL_FLOAT env0" "[ArgDouble 1]" world0 1 "[7]" 0]
  by (simp add: world0_def)

text \<open>
  C6, as stated, fails for glcSetUniformxv: with a valid dimension, an unknown name and
  \<open>amount = 0\<close> the amount check comes first, the diagnostic is "Amount invalid" and
  the location is never looked up.
\<close>

theorem unknown_uniform_counterexample:
  "1 \<le> sint (1 :: c_int) \<and> sint (1 :: c_int) \<le> 4 \<and>
   uniform_location env0 3 ''nope'' = - 1 \<and>
   glcSetUniformxv env0 3 ''nope'' (GL_FLOAT env0) 1 0 [] world0 =
     (- 1, world0\<lparr>trace :=
       [Fprintf ''Amount invalid. Must be larger than 0. Got %d\<newline>'' [Dec 0]]\<rparr>) \<and>
   glcSetUniformxv env0 3 ''nope'' (GL_FLOAT env0) 1 0 [] world0 \<noteq>
     (- 1, world0\<lparr>trace :=
       [GlGetUniformLocation 3 ''nope'' (- 1),
        Fprintf ''Uniform name invalid: %s\<newline>'' [Str ''nope'']]\<rparr>)"
  by (simp add: glcSetUniformxv_def signed_compare fprintf_def logcall_def world0_def env0_def)

text \<open>
  C6, amended. With a name the driver does not resolve (\<open>glGetUniformLocation\<close> returns
  -1), a valid dimension and, for glcSetUniformxv, an amount above 0, each setter returns -1
  after the lookup and the "Uniform name invalid" diagnostic, and makes no other call: no
  \<open>glUseProgram\<close>, no upload.
\<close>

theorem unknown_uniform_rejected:
  assumes "uniform_location env program name = - 1"
  shows "(1 \<le> sint dimension \<and> sint dimension \<le> 4 \<longrightarrow>
            glcSetUniformx env program name ty dimension vl w =
              Some (- 1, w\<lparr>trace := trace w @
                [GlGetUniformLocation program name (- 1),
                 Fprintf ''Uniform name invalid: %s\<newline>'' [Str name]]\<rparr>)) \<and>
         (1 \<le> sint dimension \<and> sint dimension \<le> 4 \<and> 0 < sint amount \<longrightarrow>
            glcSetUniformxv env program name ty dimension amount uniform w =
              (- 1, w\<lparr>trace := trace w @
                [GlGetUniformLocation program name (- 1),
                 Fprintf ''Uniform name invalid: %s\<newline>'' [Str name]]\<rparr>)) \<and>
         (2 \<le> sint dimension \<and> sint dimension \<le> 4 \<longrightarrow>
            glcSetUniformMatx env program name dimension amount transpose' uniform w =
              (- 1, w\<lparr>trace := trace w @
                [GlGetUniformLocation program name (- 1),
                 Fprintf ''Uniform name invalid: %s\<newline>'' [Str name]]\<rparr>))"
  using assms
  by (simp add: glcSetUniformx_def glcSetUniformxv_def glcSetUniformMatx_def signed_compare
        glGetUniformLocation_def fprintf_def logcall_def Let_def)

theorem unknown_uniform_rejected_witness:
  "uniform_location env0 3 ''nope'' = - 1 \<and>
   1 \<le> sint (3 :: c_int) \<and> 2 \<le> sint (3 :: c_int) \<and> sint (3 :: c_int) \<le> 4 \<and>
   0 < sint (2 :: c_int) \<and>
   glcSetUniformx env0 3 ''nope'' (GL_FLOAT env0) 3 [ArgDouble 1, ArgDouble 2, ArgDouble 3] world0 =
     Some (- 1, world0\<lparr>trace :=
       [GlGetUniformLocation 3 ''nope'' (- 1),
        Fprintf ''Uniform name invalid: %s\<newline>'' [Str ''nope'']]\<rparr>) \<and>
   glcSetUniformxv env0 3 ''nope'' (GL_FLOAT env0) 3 2 [1, 2, 3, 4, 5, 6] world0 =
     (- 1, world0\<lparr>trace :=
       [GlGetUniformLocation 3 ''nope'' (- 1),
        Fprintf ''Uniform name invalid: %s\<newline>'' [Str ''nope'']]\<rparr>) \<and>
   glcSetUniformMatx env0 3 ''nope'' 3 2 0 [] world0 =
     (- 1, world0\<lparr>trace :=
       [GlGetUniformLocation 3 ''nope'' (- 1),
        Fprintf ''Uniform name invalid: %s\<newline>'' [Str ''nope'']]\<rparr>)"
proof -
  have h: "uniform_location env0 3 ''nope'' = - 1" by (simp add: env0_def)
  show ?thesis
    using h unknown_uniform_rejected [OF h, where dimension = 3 and ty = "GL_FLOAT env0"
        and vl = "[ArgDouble 1, ArgDouble 2, ArgDouble 3]" and w = world0 and amount = 2
        and uniform = "[1, 2, 3, 4, 5, 6]" and transpose' = 0]
      unknown_uniform_rejected [OF h, where dimension = 3 and w = world0 and amount = 2
        and uniform = "[]" and transpose' = 0]
    by (simp add: world0_def)
qed

text \<open>
  C7, as stated, fails when the dimension is invalid too: the dimension check comes first
  and the diagnostic is "Dimension invalid", not "Amount invalid".
\<close>

theorem invalid_count_counterexample:
  "sint (0 :: c_int) \<le> 0 \<and>
   glcSetUniformxv env0 3 ''color'' (GL_FLOAT env0) 5 0 [] world0 =
     (- 1, world0\<lparr>trace :=
       [Fprintf ''Dimension invalid. Must be 1-4. Got %d.\<newline>'' [Dec 5]]\<rparr>) \<and>
   glcSetUniformxv env0 3 ''color'' (GL_FLOAT env0) 5 0 [] world0 \<noteq>
     (- 1, world0\<lparr>trace :=
       [Fprintf ''Amount invalid. Must be larger than 0. Got %d\<newline>'' [Dec 0]]\<rparr>)"
  by (simp add: glcSetUniformxv_def signed_compare fprintf_def logcall_def world0_def)

text \<open>
  C7, amended. glcSetUniformxv called with a dimension in 1..4 and an amount of 0 or less
  returns -1 after printing the "Amount invalid" diagnostic, and that \<open>fprintf\<close> is the
  only call it makes: no lookup, no upload.
\<close>

theorem invalid_count_rejected:
  assumes "1 \<le> sint dimension" and "sint dimension \<le> 4" and "sint amount \<le> 0"
  shows "glcSetUniformxv env program name ty dimension amount uniform w =
           (- 1, w\<lparr>trace := trace w @
             [Fprintf ''Amount invalid. Must be larger than 0. Got %d\<newline>'' [Dec amount]]\<rparr>)"
  using assms
  by (simp add: glcSetUniformxv_def signed_compare fprintf_def logcall_def)

theorem invalid_count_rejected_witness:
  "1 \<le> sint (2 :: c_int) \<and> sint (2 :: c_int) \<le> 4 \<and> sint (- 1 :: c_int) \<le> 0 \<and>
   glcSetUniformxv env0 3 ''color'' (GL_FLOAT env0) 2 (- 1) [] world0 =
     (- 1, world0\<lparr>trace :=
       [Fprintf ''Amount invalid. Must be larger than 0. Got %d\<newline>'' [Dec (- 1)]]\<rparr>)"
  using invalid_count_rejected [of 2 "- 1" env0 3 "''color''" "GL_FLOAT env0" "[]" world0]
  by (simp add: world0_def)

subsection \<open>glcMakeShaderProgram: opening the files\<close>

text \<open>
  C8. When the vertex file does not open, glcMakeShaderProgram returns -1 having made two
  calls only, the failed \<open>fopen\<close> of the vertex path and the \<open>fprintf\<close> of the
  diagnostic: the fragment file is not opened. When the vertex file opens and the fragment
  file does not, it prints the diagnostic, closes the vertex file and returns -1; no
  stream is left open.
\<close>

theorem open_failures:
  "(file_system env vertexShaderPath = None \<longrightarrow>
      glcMakeShaderProgram env program vertexShaderPath fragmentShaderPath w =
        Some (- 1, program,
          w\<lparr>trace := trace w @
            [Fopen vertexShaderPath None,
             Fprintf ''Error opening vertex shader: %s\<newline>'' [Str vertexShaderPath]]\<rparr>)) \<and>
   (file_system env vertexShaderPath = Some bytes \<and>
    file_system env fragmentShaderPath = None \<longrightarrow>
      glcMakeShaderProgram env program vertexShaderPath fragmentShaderPath w =
        Some (- 1, program,
          w\<lparr>streams := (streams w)(next_id w := None),
            next_id := Suc (next_id w),
            trace := trace w @
              [Fopen vertexShaderPath (Some (next_id w)),
               Fopen fragmentShaderPath None,
               Fprintf ''Error opening fragment shader: %s\<newline>'' [Str fragmentShaderPath],
               Fclose (next_id w)]\<rparr>))"
  by (simp add: glcMakeShaderProgram_def fopen_rb_def fclose_def fprintf_def logcall_def Let_def)

theorem open_failures_witness:
  "file_system env0 ''missing.vert'' = None \<and>
   file_system env0 ''v.glsl'' = Some [118, 59] \<and>
   file_system env0 ''missing.frag'' = None \<and>
   glcMakeShaderProgram env0 7 ''missing.vert'' ''f.glsl'' world0 =
     Some (- 1, 7,
       world0\<lparr>trace :=
         [Fopen ''missing.vert'' None,
          Fprintf ''Error opening vertex shader: %s\<newline>'' [Str ''missing.vert'']]\<rparr>) \<and>
   glcMakeShaderProgram env0 7 ''v.glsl'' ''missing.frag'' world0 =
     Some (- 1, 7,
       world0\<lparr>next_id := 1,
         trace :=
           [Fopen ''v.glsl'' (Some 0),
            Fopen ''missing.frag'' None,
            Fprintf ''Error opening fragment shader: %s\<newline>'' [Str ''missing.frag''],
            Fclose 0]\<rparr>)"
  using open_failures [where env = env0 and program = 7 and vertexShaderPath = "''missing.vert''"
      and fragmentShaderPath = "''f.glsl''" and w = world0]
    open_failures [where env = env0 and program = 7 and vertexShaderPath = "''v.glsl''"
      and fragmentShaderPath = "''missing.frag''" and w = world0 and bytes = "[118, 59]"]
  by (simp add: env0_def world0_def)

subsection \<open>The matrix setter: amount\<close>

text \<open>
  C9. glcSetUniformMatx does not test \<open>amount\<close>: with a dimension in 2..4 and a name
  that resolves it returns 1 for every amount, zero and negative ones included, after
  passing it unchanged to \<open>glUniformMatrix<d>fv\<close>; glcSetUniformxv, with the same
  arguments and an amount of 0 or less, returns -1 and uploads nothing.
\<close>

theorem matrix_amount_unchecked:
  assumes "2 \<le> sint dimension" and "sint dimension \<le> 4"
    and "uniform_location env program name \<noteq> - 1"
  shows "glcSetUniformMatx env program name dimension amount transpose' uniform w =
           (1, w\<lparr>current_program := program,
                 trace := trace w @
                   [GlGetUniformLocation program name (uniform_location env program name),
                    GlUseProgram program,
                    GlUniformMatrix (matrix_upload_fn (nat (sint dimension)))
                      (uniform_location env program name) amount transpose' uniform]\<rparr>) \<and>
         (sint amount \<le> 0 \<longrightarrow>
            glcSetUniformxv env program name ty dimension amount uniform w =
              (- 1, w\<lparr>trace := trace w @
                 [Fprintf ''Amount invalid. Must be larger than 0. Got %d\<newline>''
                    [Dec amount]]\<rparr>))"
proof -
  from assms(1,2) have "1 \<le> sint dimension" by simp
  from dimension_cases [OF this assms(2)] assms(1)
  have "dimension = 2 \<or> dimension = 3 \<or> dimension = 4" by auto
  then have "glcSetUniformMatx env program name dimension amount transpose' uniform w =
           (1, w\<lparr>current_program := program,
                 trace := trace w @
                   [GlGetUniformLocation program name (uniform_location env program name),
                    GlUseProgram program,
                    GlUniformMatrix (matrix_upload_fn (nat (sint dimension)))
                      (uniform_location env program name) amount transpose' uniform]\<rparr>)"
    using assms(3)
    by (elim disjE;
        simp add: glcSetUniformMatx_def signed_compare setter_defs matrix_upload_fn_def)
  moreover have "sint amount \<le> 0 \<longrightarrow>
            glcSetUniformxv env program name ty dimension amount uniform w =
              (- 1, w\<lparr>trace := trace w @
                 [Fprintf ''Amount invalid. Must be larger than 0. Got %d\<newline>''
                    [Dec amount]]\<rparr>)"
    using assms(1,2)
    by (simp add: glcSetUniformxv_def signed_compare fprintf_def logcall_def)
  ultimately show ?thesis by simp
qed

theorem matrix_amount_unchecked_witness:
  "2 \<le> sint (4 :: c_int) \<and> sint (4 :: c_int) \<le> 4 \<and>
   uniform_location env0 9 ''color'' \<noteq> - 1 \<and> sint (- 7 :: c_int) \<le> 0 \<and>
   glcSetUniformMatx env0 9 ''color'' 4 (- 7) 1 [] world0 =
     (1, world0\<lparr>current_program := 9,
          trace := [GlGetUniformLocation 9 ''color'' 0, GlUseProgram 9,
                    GlUniformMatrix glUniformMatrix4fv 0 (- 7) 1 []]\<rparr>) \<and>
   glcSetUniformMatx env0 9 ''color'' 2 0 0 [] world0 =
     (1, world0\<lparr>current_program := 9,
          trace := [GlGetUniformLocation 9 ''color'' 0, GlUseProgram 9,
                    GlUniformMatrix glUniformMatrix2fv 0 0 0 []]\<rparr>) \<and>
   glcSetUniformxv env0 9 ''color'' (GL_FLOAT env0) 4 (- 7) [] world0 =
     (- 1, world0\<lparr>trace :=
        [Fprintf ''Amount invalid. Must be larger than 0. Got %d\<newline>'' [Dec (- 7)]]\<rparr>)"
  using matrix_amount_unchecked [where env = env0 and program = 9 and name = "''color''"
      and dimension = 4 and amount = "- 7" and transpose' = 1 and uniform = "[]"
      and w = world0 and ty = "GL_FLOAT env0"]
    matrix_amount_unchecked [where env = env0 and program = 9 and name = "''color''"
      and dimension = 2 and amount = 0 and transpose' = 0 and uniform = "[]"
      and w = world0 and ty = "GL_FLOAT env0"]
  by (simp add: env0_def world0_def matrix_upload_fn_def)

subsection \<open>glcMakeShaderProgram: the out-parameter\<close>

text \<open>
  C10. In a run of glcMakeShaderProgram that meets a failure preceding the program
  object (an \<open>fopen\<close> that returns NULL, a \<open>glCreateShader\<close> that returns 0, a
  compile status that is false) the result is -1, \<open>*program\<close> is never stored to and
  keeps the value it had at entry. In every run, the first store to \<open>*program\<close> is the
  one that follows the call of \<open>glCreateProgram\<close> and holds its result, and there is
  no other.
\<close>

theorem program_written_only_at_creation:
  assumes "glcMakeShaderProgram env program vertexShaderPath fragmentShaderPath w =
      Some (r, program', w')"
  shows "(list_ex early_failure (new_calls w w') \<longrightarrow>
            r = - 1 \<and> program' = program \<and> \<not> list_ex assigns_program (new_calls w w')) \<and>
         (list_ex assigns_program (new_calls w w') \<longrightarrow>
            (\<exists>pre post.
               new_calls w w' = pre @ [GlCreateProgram program', Assign_program program'] @ post \<and>
               \<not> list_ex assigns_program pre \<and> \<not> list_ex assigns_program post))"
proof -
  from make_calls [OF assms] show ?thesis
  proof
    assume "r = - 1 \<and> program' = program \<and> \<not> list_ex assigns_program (new_calls w w')"
    then show ?thesis by simp
  next
    assume "\<exists>pre post.
      new_calls w w' = pre @ [GlCreateProgram program', Assign_program program'] @ post \<and>
      list_all quiet pre \<and> list_all quiet post"
    then obtain pre post
      where n: "new_calls w w' = pre @ [GlCreateProgram program', Assign_program program'] @ post"
        and q: "list_all quiet pre" "list_all quiet post" by blast
    have "\<not> list_ex early_failure (new_calls w w')"
      using n quiet_no_failure [OF q(1)] quiet_no_failure [OF q(2)] by simp
    moreover have "\<not> list_ex assigns_program pre" "\<not> list_ex assigns_program post"
      using quiet_no_assign' q by blast+
    ultimately show ?thesis using n by blast
  qed
qed

theorem program_written_only_at_creation_witness:
  "\<exists>r program' w'.
     glcMakeShaderProgram (env0\<lparr>compiles := \<lambda>st src. st \<noteq> GL_VERTEX_SHADER\<rparr>)
       7 ''v.glsl'' ''f.glsl'' world0 = Some (r, program', w') \<and>
     list_ex early_failure (new_calls world0 w') \<and>
     r = - 1 \<and> program' = 7 \<and> \<not> list_ex assigns_program (new_calls world0 w')"
proof -
  let ?env = "env0\<lparr>compiles := \<lambda>st src. st \<noteq> GL_VERTEX_SHADER\<rparr>"
  have "glcMakeShaderProgram ?env 7 ''v.glsl'' ''f.glsl'' world0 \<noteq> None"
    by (simp add: run_defs)
  then obtain r program' w'
    where run: "glcMakeShaderProgram ?env 7 ''v.glsl'' ''f.glsl'' world0 = Some (r, program', w')"
    by (cases "glcMakeShaderProgram ?env 7 ''v.glsl'' ''f.glsl'' world0") auto
  have "list_ex early_failure (new_calls world0 w')"
    using run by (auto simp: run_defs new_calls_def)
  with program_written_only_at_creation [OF run] run show ?thesis by blast
qed

end
